theory Spec2Isabelle
  imports Main "HOL-Library.Word"
begin

section \<open>Byte buffers, JavaScript strings and thrown errors\<close>

text \<open>
  An \<^verbatim>\<open>ArrayBuffer\<close> or \<^verbatim>\<open>Uint8Array\<close> is the list of its bytes. A JavaScript string
  is the list of its UTF-16 code units. A function that may throw returns
  \<open>error + 'a\<close>, with \<open>Inl\<close> carrying what was thrown.
\<close>

type_synonym byte = "8 word"
type_synonym bytes = "byte list"
type_synonym code_unit = "16 word"
type_synonym jsstring = "code_unit list"

datatype error =
    InvalidCharacterError
  | SyntaxError
  | TypeError
  | DataError
  | InvalidAccessError
  | OperationError
  | NotSupportedError
  | Error jsstring

definition js :: "string \<Rightarrow> jsstring" where
  "js s = map (\<lambda>c. of_nat (of_char c)) s"

definition bind_e :: "error + 'a \<Rightarrow> ('a \<Rightarrow> error + 'b) \<Rightarrow> error + 'b" where
  "bind_e m f = (case m of Inl e \<Rightarrow> Inl e | Inr v \<Rightarrow> f v)"

definition catch_e :: "error + 'a \<Rightarrow> (error \<Rightarrow> error + 'a) \<Rightarrow> error + 'a" where
  "catch_e m h = (case m of Inl e \<Rightarrow> h e | Inr v \<Rightarrow> Inr v)"

section \<open>The platform's Base64 functions\<close>

text \<open>
  \<^verbatim>\<open>btoa\<close> and \<^verbatim>\<open>atob\<close> are browser functions; they are modelled after the HTML
  standard: \<^verbatim>\<open>btoa\<close> throws on a code unit above U+00FF and otherwise applies the
  Base64 encoding of RFC 4648 with padding; \<^verbatim>\<open>atob\<close> is the forgiving Base64
  decoder (ASCII whitespace removed, optional padding removed when the length is a
  multiple of four, failure on a length of 1 modulo 4 or on a code unit outside the
  alphabet, left-over bits of the last group discarded).
\<close>

definition b64_char :: "nat \<Rightarrow> code_unit" where
  "b64_char i = of_nat (if i < 26 then 65 + i
                        else if i < 52 then 71 + i
                        else if i < 62 then i - 4
                        else if i = 62 then 43 else 47)"

fun b64_sextets :: "bytes \<Rightarrow> nat list" where
  "b64_sextets (a # b # c # rest) =
     [unat a div 4, (unat a mod 4) * 16 + unat b div 16,
      (unat b mod 16) * 4 + unat c div 64, unat c mod 64] @ b64_sextets rest"
| "b64_sextets [a, b] =
     [unat a div 4, (unat a mod 4) * 16 + unat b div 16, (unat b mod 16) * 4]"
| "b64_sextets [a] = [unat a div 4, (unat a mod 4) * 16]"
| "b64_sextets [] = []"

definition b64_encode :: "bytes \<Rightarrow> jsstring" where
  "b64_encode bs =
     map b64_char (b64_sextets bs) @ replicate ((3 - length bs mod 3) mod 3) 0x3D"

definition btoa :: "jsstring \<Rightarrow> error + jsstring" where
  "btoa s = (if \<exists>c \<in> set s. 0xFF < c then Inl InvalidCharacterError
             else Inr (b64_encode (map ucast s)))"

definition ascii_whitespace :: "code_unit \<Rightarrow> bool" where
  "ascii_whitespace c = (c = 0x09 \<or> c = 0x0A \<or> c = 0x0C \<or> c = 0x0D \<or> c = 0x20)"

definition b64_index :: "code_unit \<Rightarrow> nat option" where
  "b64_index c =
     (let n = unat c in
      if 65 \<le> n \<and> n \<le> 90 then Some (n - 65)
      else if 97 \<le> n \<and> n \<le> 122 then Some (n - 71)
      else if 48 \<le> n \<and> n \<le> 57 then Some (n + 4)
      else if n = 43 then Some 62
      else if n = 47 then Some 63
      else None)"

definition strip_padding :: "jsstring \<Rightarrow> jsstring" where
  "strip_padding d =
     (if length d mod 4 = 0 \<and> d \<noteq> [] \<and> last d = 0x3D then
        (if butlast d \<noteq> [] \<and> last (butlast d) = 0x3D then butlast (butlast d)
         else butlast d)
      else d)"

fun b64_octets :: "nat list \<Rightarrow> bytes" where
  "b64_octets (i0 # i1 # i2 # i3 # rest) =
     [of_nat (i0 * 4 + i1 div 16), of_nat ((i1 mod 16) * 16 + i2 div 4),
      of_nat ((i2 mod 4) * 64 + i3)] @ b64_octets rest"
| "b64_octets [i0, i1, i2] =
     [of_nat (i0 * 4 + i1 div 16), of_nat ((i1 mod 16) * 16 + i2 div 4)]"
| "b64_octets [i0, i1] = [of_nat (i0 * 4 + i1 div 16)]"
| "b64_octets [i0] = []"
| "b64_octets [] = []"

fun those_indices :: "code_unit list \<Rightarrow> nat list option" where
  "those_indices [] = Some []"
| "those_indices (c # cs) =
     (case b64_index c of None \<Rightarrow> None
      | Some i \<Rightarrow> (case those_indices cs of None \<Rightarrow> None | Some is \<Rightarrow> Some (i # is)))"

definition atob :: "jsstring \<Rightarrow> error + jsstring" where
  "atob s =
     (let d = strip_padding (filter (\<lambda>c. \<not> ascii_whitespace c) s) in
      if length d mod 4 = 1 then Inl InvalidCharacterError
      else (case those_indices d of
              None \<Rightarrow> Inl InvalidCharacterError
            | Some is \<Rightarrow> Inr (map ucast (b64_octets is))))"

section \<open>Primitive layer: binary/text codec (symmetric.ts)\<close>

definition arrayBufferToBase64 :: "bytes \<Rightarrow> error + jsstring" where
  "arrayBufferToBase64 buffer = btoa (map ucast buffer)"

definition base64ToArrayBuffer :: "jsstring \<Rightarrow> error + bytes" where
  "base64ToArrayBuffer base64 =
     bind_e (atob base64) (\<lambda>binary. Inr (map ucast binary))"

section \<open>The platform's text codec\<close>

text \<open>
  \<^verbatim>\<open>new TextEncoder().encode(s)\<close> and \<^verbatim>\<open>new TextDecoder().decode(b)\<close> are modelled
  after the WHATWG Encoding standard. The encoder reads the string as UTF-16, puts
  U+FFFD in place of an unpaired surrogate and writes UTF-8. The decoder is the UTF-8
  decoder in replacement mode (every malformed sequence yields U+FFFD); with the default
  options a byte order mark at the start of the input is dropped from the output.
\<close>

fun utf16_code_points :: "jsstring \<Rightarrow> nat list" where
  "utf16_code_points [] = []"
| "utf16_code_points [c] =
     (if 0xD800 \<le> unat c \<and> unat c < 0xE000 then [0xFFFD] else [unat c])"
| "utf16_code_points (c # d # cs) =
     (if 0xD800 \<le> unat c \<and> unat c < 0xDC00 then
        (if 0xDC00 \<le> unat d \<and> unat d < 0xE000
         then (0x10000 + (unat c - 0xD800) * 0x400 + (unat d - 0xDC00)) # utf16_code_points cs
         else 0xFFFD # utf16_code_points (d # cs))
      else if 0xDC00 \<le> unat c \<and> unat c < 0xE000 then 0xFFFD # utf16_code_points (d # cs)
      else unat c # utf16_code_points (d # cs))"

definition utf8_bytes :: "nat \<Rightarrow> bytes" where
  "utf8_bytes cp =
     (if cp < 0x80 then [of_nat cp]
      else if cp < 0x800 then [of_nat (0xC0 + cp div 64), of_nat (0x80 + cp mod 64)]
      else if cp < 0x10000 then
        [of_nat (0xE0 + cp div 4096), of_nat (0x80 + cp div 64 mod 64), of_nat (0x80 + cp mod 64)]
      else
        [of_nat (0xF0 + cp div 262144), of_nat (0x80 + cp div 4096 mod 64),
         of_nat (0x80 + cp div 64 mod 64), of_nat (0x80 + cp mod 64)])"

definition TextEncoder_encode :: "jsstring \<Rightarrow> bytes" where
  "TextEncoder_encode s = concat (map utf8_bytes (utf16_code_points s))"

text \<open>
  The decoder's state: the code point under construction, the continuation bytes seen
  and needed, and the bounds the next continuation byte must lie in.
\<close>

function utf8_decode :: "nat \<Rightarrow> nat \<Rightarrow> nat \<Rightarrow> nat \<Rightarrow> nat \<Rightarrow> bytes \<Rightarrow> nat list" where
  "utf8_decode cp seen needed lower upper [] = (if needed \<noteq> 0 then [0xFFFD] else [])"
| "utf8_decode cp seen needed lower upper (b # bs) =
     (if needed = 0 then
        (if unat b \<le> 0x7F then unat b # utf8_decode 0 0 0 0x80 0xBF bs
         else if 0xC2 \<le> unat b \<and> unat b \<le> 0xDF then
           utf8_decode (unat b mod 32) 0 1 0x80 0xBF bs
         else if 0xE0 \<le> unat b \<and> unat b \<le> 0xEF then
           utf8_decode (unat b mod 16) 0 2
             (if unat b = 0xE0 then 0xA0 else 0x80) (if unat b = 0xED then 0x9F else 0xBF) bs
         else if 0xF0 \<le> unat b \<and> unat b \<le> 0xF4 then
           utf8_decode (unat b mod 8) 0 3
             (if unat b = 0xF0 then 0x90 else 0x80) (if unat b = 0xF4 then 0x8F else 0xBF) bs
         else 0xFFFD # utf8_decode 0 0 0 0x80 0xBF bs)
      else if unat b < lower \<or> upper < unat b then
        0xFFFD # utf8_decode 0 0 0 0x80 0xBF (b # bs)
      else if Suc seen \<noteq> needed then
        utf8_decode (cp * 64 + unat b mod 64) (Suc seen) needed 0x80 0xBF bs
      else (cp * 64 + unat b mod 64) # utf8_decode 0 0 0 0x80 0xBF bs)"
  by pat_completeness auto
termination
  by (relation "measure (\<lambda>(cp, seen, needed, lower, upper, bs).
        2 * length bs + (if needed = 0 then 0 else 1))") auto

definition utf16_units :: "nat \<Rightarrow> jsstring" where
  "utf16_units cp =
     (if cp < 0x10000 then [of_nat cp]
      else [of_nat (0xD800 + (cp - 0x10000) div 0x400), of_nat (0xDC00 + (cp - 0x10000) mod 0x400)])"

definition strip_bom :: "nat list \<Rightarrow> nat list" where
  "strip_bom cps = (case cps of [] \<Rightarrow> [] | c # cs \<Rightarrow> if c = 0xFEFF then cs else c # cs)"

definition TextDecoder_decode :: "bytes \<Rightarrow> jsstring" where
  "TextDecoder_decode b = concat (map utf16_units (strip_bom (utf8_decode 0 0 0 0x80 0xBF b)))"

text \<open>symmetric.ts, lines 101--110.\<close>

definition stringToArrayBuffer :: "jsstring \<Rightarrow> bytes" where
  "stringToArrayBuffer str = TextEncoder_encode str"

definition arrayBufferToString :: "bytes \<Rightarrow> jsstring" where
  "arrayBufferToString buffer = TextDecoder_decode buffer"



section \<open>The platform: JSON values, randomness and cryptographic primitives\<close>

text \<open>
  A JSON value, as \<^verbatim>\<open>JSON.parse\<close> returns it; a \<^verbatim>\<open>JsonWebKey\<close> is such a value.
\<close>

datatype json =
    JNull
  | JBool bool
  | JNumber int
  | JString jsstring
  | JArray "json list"
  | JObject "(jsstring \<times> json) list"

text \<open>
  The kinds of \<^verbatim>\<open>CryptoKey\<close> this program handles, and a key: its algorithm and type,
  whether it may be exported, what it may be used for, and its key material.
\<close>

datatype key_kind =
    AesGcmKey | HkdfKey | Pbkdf2Key
  | EcdhPublicKey | EcdhPrivateKey
  | RsaOaepPublicKey | RsaOaepPrivateKey

datatype key_usage = Encrypt | Decrypt | WrapKey | UnwrapKey | DeriveKey | DeriveBits

record CryptoKey =
  kind :: key_kind
  extractable :: bool
  usages :: "key_usage list"
  material :: bytes

text \<open>
  What the browser supplies and this development does not look inside. The
  cryptographic primitives work on key material: ECDH on P-256 (private key, peer's
  public key; \<open>None\<close> when the computation fails), HKDF and PBKDF2 with SHA-256 (the
  last argument is the output length in bits), AES-GCM (key, IV, data; decryption is
  \<open>None\<close> when the tag does not verify), RSA-OAEP with SHA-256 (encryption takes the
  random seed; \<open>None\<close> when the message is too long, or when the padding does not
  verify), SHA-256, the reading of a JSON Web Key as key material of a given kind
  (\<open>None\<close> when it is malformed or of another algorithm), \<^verbatim>\<open>JSON.stringify\<close> (value and
  indentation), \<^verbatim>\<open>JSON.parse\<close> (\<open>None\<close> for a syntax error) and the conversion of a
  JSON value that is not a string to a string.
\<close>

record platform =
  ecdh_p256 :: "bytes \<Rightarrow> bytes \<Rightarrow> bytes option"
  hkdf_sha256 :: "bytes \<Rightarrow> bytes \<Rightarrow> bytes \<Rightarrow> nat \<Rightarrow> bytes"
  pbkdf2_sha256 :: "bytes \<Rightarrow> bytes \<Rightarrow> nat \<Rightarrow> nat \<Rightarrow> bytes"
  aes_gcm_encrypt :: "bytes \<Rightarrow> bytes \<Rightarrow> bytes \<Rightarrow> bytes"
  aes_gcm_decrypt :: "bytes \<Rightarrow> bytes \<Rightarrow> bytes \<Rightarrow> bytes option"
  rsa_oaep_encrypt :: "bytes \<Rightarrow> bytes \<Rightarrow> bytes \<Rightarrow> bytes option"
  rsa_oaep_decrypt :: "bytes \<Rightarrow> bytes \<Rightarrow> bytes option"
  sha256 :: "bytes \<Rightarrow> bytes"
  jwk_key_data :: "key_kind \<Rightarrow> json \<Rightarrow> bytes option"
  json_stringify :: "json \<Rightarrow> nat \<Rightarrow> jsstring"
  json_parse :: "jsstring \<Rightarrow> json option"
  js_ToString :: "json \<Rightarrow> jsstring"

text \<open>
  The random number generator is a tape of bytes; \<^verbatim>\<open>crypto.getRandomValues\<close> on an
  array of \<open>n\<close> bytes reads the next \<open>n\<close> bytes and moves the tape on.
\<close>

type_synonym tape = "nat \<Rightarrow> byte"

definition getRandomValues :: "nat \<Rightarrow> tape \<Rightarrow> bytes \<times> tape" where
  "getRandomValues n t = (map t [0..<n], \<lambda>i. t (i + n))"

subsection \<open>The Web Cryptography API on top of the primitives\<close>

text \<open>
  \<^verbatim>\<open>crypto.subtle\<close> as the W3C recommendation defines it, for the algorithms and key
  formats this program uses: each operation checks that the key is of the operation's
  algorithm and carries the usage, and only then computes.
\<close>

datatype crypt_params = AesGcmParams bytes | RsaOaepParams

datatype derive_params = HkdfParams bytes bytes | Pbkdf2Params bytes nat

definition encrypt_op :: "platform \<Rightarrow> bytes \<Rightarrow> crypt_params \<Rightarrow> CryptoKey \<Rightarrow> bytes \<Rightarrow> error + bytes" where
  "encrypt_op W seed params key data =
     (case params of
        AesGcmParams iv \<Rightarrow>
          if kind key = AesGcmKey then Inr (aes_gcm_encrypt W (material key) iv data)
          else Inl InvalidAccessError
      | RsaOaepParams \<Rightarrow>
          if kind key = RsaOaepPublicKey then
            (case rsa_oaep_encrypt W (material key) seed data of
               None \<Rightarrow> Inl OperationError
             | Some c \<Rightarrow> Inr c)
          else Inl InvalidAccessError)"

definition decrypt_op :: "platform \<Rightarrow> crypt_params \<Rightarrow> CryptoKey \<Rightarrow> bytes \<Rightarrow> error + bytes" where
  "decrypt_op W params key data =
     (case params of
        AesGcmParams iv \<Rightarrow>
          if kind key = AesGcmKey then
            (case aes_gcm_decrypt W (material key) iv data of
               None \<Rightarrow> Inl OperationError
             | Some p \<Rightarrow> Inr p)
          else Inl InvalidAccessError
      | RsaOaepParams \<Rightarrow>
          if kind key = RsaOaepPrivateKey then
            (case rsa_oaep_decrypt W (material key) data of
               None \<Rightarrow> Inl OperationError
             | Some p \<Rightarrow> Inr p)
          else Inl InvalidAccessError)"

definition subtle_encrypt :: "platform \<Rightarrow> bytes \<Rightarrow> crypt_params \<Rightarrow> CryptoKey \<Rightarrow> bytes \<Rightarrow> error + bytes" where
  "subtle_encrypt W seed params key data =
     (if Encrypt \<in> set (usages key) then encrypt_op W seed params key data
      else Inl InvalidAccessError)"

definition subtle_decrypt :: "platform \<Rightarrow> crypt_params \<Rightarrow> CryptoKey \<Rightarrow> bytes \<Rightarrow> error + bytes" where
  "subtle_decrypt W params key data =
     (if Decrypt \<in> set (usages key) then decrypt_op W params key data
      else Inl InvalidAccessError)"

text \<open>
  A new secret AES-GCM key: only the four cipher usages are allowed, and a secret key
  must have a usage. Importing raw bytes also checks the key length.
\<close>

definition new_aes_key :: "bool \<Rightarrow> key_usage list \<Rightarrow> bytes \<Rightarrow> error + CryptoKey" where
  "new_aes_key ext us data =
     (if \<not> set us \<subseteq> {Encrypt, Decrypt, WrapKey, UnwrapKey} \<or> us = [] then Inl SyntaxError
      else Inr \<lparr>kind = AesGcmKey, extractable = ext, usages = us, material = data\<rparr>)"

definition import_raw_aes :: "bool \<Rightarrow> key_usage list \<Rightarrow> bytes \<Rightarrow> error + CryptoKey" where
  "import_raw_aes ext us data =
     (if \<not> set us \<subseteq> {Encrypt, Decrypt, WrapKey, UnwrapKey} then Inl SyntaxError
      else if length data \<noteq> 16 \<and> length data \<noteq> 24 \<and> length data \<noteq> 32 then Inl DataError
      else new_aes_key ext us data)"

text \<open>Raw key bytes for HKDF or PBKDF2: such a key is never extractable.\<close>

definition import_raw_kdf :: "key_kind \<Rightarrow> bool \<Rightarrow> key_usage list \<Rightarrow> bytes \<Rightarrow> error + CryptoKey" where
  "import_raw_kdf k ext us data =
     (if \<not> set us \<subseteq> {DeriveKey, DeriveBits} \<or> us = [] \<or> ext then Inl SyntaxError
      else Inr \<lparr>kind = k, extractable = False, usages = us, material = data\<rparr>)"

definition jwk_usages_ok :: "key_kind \<Rightarrow> key_usage list \<Rightarrow> bool" where
  "jwk_usages_ok k us =
     (case k of
        EcdhPublicKey \<Rightarrow> us = []
      | EcdhPrivateKey \<Rightarrow> set us \<subseteq> {DeriveKey, DeriveBits} \<and> us \<noteq> []
      | RsaOaepPublicKey \<Rightarrow> set us \<subseteq> {Encrypt, WrapKey}
      | RsaOaepPrivateKey \<Rightarrow> set us \<subseteq> {Decrypt, UnwrapKey} \<and> us \<noteq> []
      | _ \<Rightarrow> False)"

definition subtle_importKey_jwk ::
  "platform \<Rightarrow> key_kind \<Rightarrow> json \<Rightarrow> bool \<Rightarrow> key_usage list \<Rightarrow> error + CryptoKey" where
  "subtle_importKey_jwk W k jwk ext us =
     (if \<not> jwk_usages_ok k us then Inl SyntaxError
      else (case jwk_key_data W k jwk of
              None \<Rightarrow> Inl DataError
            | Some m \<Rightarrow> Inr \<lparr>kind = k, extractable = ext, usages = us, material = m\<rparr>))"

definition export_raw :: "CryptoKey \<Rightarrow> error + bytes" where
  "export_raw key =
     (if \<not> extractable key then Inl InvalidAccessError
      else if kind key = AesGcmKey then Inr (material key)
      else Inl NotSupportedError)"

text \<open>
  \<^verbatim>\<open>wrapKey("raw", key, wrappingKey, params)\<close> exports the key and encrypts the
  exported bytes; \<^verbatim>\<open>unwrapKey("raw", wrapped, unwrappingKey, params, AES-GCM, ext, usages)\<close>
  decrypts and imports the result as an AES-GCM key.
\<close>

definition subtle_wrapKey_raw ::
  "platform \<Rightarrow> bytes \<Rightarrow> CryptoKey \<Rightarrow> CryptoKey \<Rightarrow> crypt_params \<Rightarrow> error + bytes" where
  "subtle_wrapKey_raw W seed key wrappingKey params =
     (if WrapKey \<notin> set (usages wrappingKey) then Inl InvalidAccessError
      else bind_e (export_raw key) (\<lambda>raw. encrypt_op W seed params wrappingKey raw))"

definition subtle_unwrapKey_raw_aes ::
  "platform \<Rightarrow> bytes \<Rightarrow> CryptoKey \<Rightarrow> crypt_params \<Rightarrow> bool \<Rightarrow> key_usage list \<Rightarrow> error + CryptoKey" where
  "subtle_unwrapKey_raw_aes W wrapped unwrappingKey params ext us =
     (if UnwrapKey \<notin> set (usages unwrappingKey) then Inl InvalidAccessError
      else bind_e (decrypt_op W params unwrappingKey wrapped) (\<lambda>raw. import_raw_aes ext us raw))"

text \<open>\<^verbatim>\<open>deriveBits\<close> with ECDH and a length of 256 bits.\<close>

definition subtle_deriveBits_ecdh :: "platform \<Rightarrow> CryptoKey \<Rightarrow> CryptoKey \<Rightarrow> error + bytes" where
  "subtle_deriveBits_ecdh W pub base =
     (if kind base \<noteq> EcdhPrivateKey \<or> DeriveBits \<notin> set (usages base) then Inl InvalidAccessError
      else if kind pub \<noteq> EcdhPublicKey then Inl InvalidAccessError
      else (case ecdh_p256 W (material base) (material pub) of
              None \<Rightarrow> Inl OperationError
            | Some secret \<Rightarrow>
                if length secret < 32 then Inl OperationError else Inr (take 32 secret)))"

text \<open>\<^verbatim>\<open>deriveKey\<close> with HKDF or PBKDF2 (SHA-256) to a 256-bit AES-GCM key.\<close>

definition subtle_deriveKey_aes256 ::
  "platform \<Rightarrow> derive_params \<Rightarrow> CryptoKey \<Rightarrow> bool \<Rightarrow> key_usage list \<Rightarrow> error + CryptoKey" where
  "subtle_deriveKey_aes256 W params base ext us =
     (if DeriveKey \<notin> set (usages base) then Inl InvalidAccessError
      else (case params of
              HkdfParams salt info \<Rightarrow>
                if kind base \<noteq> HkdfKey then Inl InvalidAccessError
                else new_aes_key ext us (hkdf_sha256 W (material base) salt info 256)
            | Pbkdf2Params salt iterations \<Rightarrow>
                if kind base \<noteq> Pbkdf2Key then Inl InvalidAccessError
                else if iterations = 0 then Inl OperationError
                else new_aes_key ext us (pbkdf2_sha256 W (material base) salt iterations 256)))"

text \<open>\<^verbatim>\<open>generateKey\<close> for a 256-bit AES-GCM key: 32 bytes off the tape.\<close>

definition subtle_generateKey_aes256 ::
  "bool \<Rightarrow> key_usage list \<Rightarrow> tape \<Rightarrow> (error + CryptoKey) \<times> tape" where
  "subtle_generateKey_aes256 ext us t =
     (let (k, t') = getRandomValues 32 t in (new_aes_key ext us k, t'))"

section \<open>Primitive layer: symmetric encryption (symmetric.ts)\<close>

definition genAesGcmKey :: "tape \<Rightarrow> (error + CryptoKey) \<times> tape" where
  "genAesGcmKey t = subtle_generateKey_aes256 True [Encrypt, Decrypt] t"

definition aesGcmEncrypt :: "platform \<Rightarrow> CryptoKey \<Rightarrow> bytes \<Rightarrow> bytes \<Rightarrow> error + bytes" where
  "aesGcmEncrypt W key iv data = subtle_encrypt W [] (AesGcmParams iv) key data"

definition aesGcmDecrypt :: "platform \<Rightarrow> CryptoKey \<Rightarrow> bytes \<Rightarrow> bytes \<Rightarrow> error + bytes" where
  "aesGcmDecrypt W key iv ciphertext = subtle_decrypt W (AesGcmParams iv) key ciphertext"

definition generateIV :: "tape \<Rightarrow> bytes \<times> tape" where
  "generateIV t = getRandomValues 12 t"

definition generateSalt :: "tape \<Rightarrow> bytes \<times> tape" where
  "generateSalt t = getRandomValues 16 t"

section \<open>Hash (hash.ts)\<close>

text \<open>
  \<^verbatim>\<open>sha256Hex\<close> takes a buffer or a string; a string is hashed as its UTF-8 bytes. Each
  byte of the digest is written with \<^verbatim>\<open>toString(16)\<close> and padded to two digits.
\<close>

datatype hash_input = BufferData bytes | StringData jsstring

definition hex_digit :: "nat \<Rightarrow> code_unit" where
  "hex_digit n = of_nat (if n < 10 then 48 + n else 87 + n)"

definition toString16 :: "nat \<Rightarrow> jsstring" where
  "toString16 n = (if n < 16 then [hex_digit n] else [hex_digit (n div 16), hex_digit (n mod 16)])"

definition padStart :: "nat \<Rightarrow> code_unit \<Rightarrow> jsstring \<Rightarrow> jsstring" where
  "padStart n c s = replicate (n - length s) c @ s"

definition sha256Hex :: "platform \<Rightarrow> hash_input \<Rightarrow> jsstring" where
  "sha256Hex W data =
     (let buffer = (case data of StringData s \<Rightarrow> TextEncoder_encode s | BufferData b \<Rightarrow> b);
          hashArray = sha256 W buffer
      in concat (map (\<lambda>b. padStart 2 0x30 (toString16 (unat b))) hashArray))"

section \<open>Identity key manager (keys.ts)\<close>

definition importECDHPublicJwk :: "platform \<Rightarrow> json \<Rightarrow> error + CryptoKey" where
  "importECDHPublicJwk W jwk = subtle_importKey_jwk W EcdhPublicKey jwk True []"

definition importECDHPrivateJwk :: "platform \<Rightarrow> json \<Rightarrow> error + CryptoKey" where
  "importECDHPrivateJwk W jwk =
     subtle_importKey_jwk W EcdhPrivateKey jwk True [DeriveKey, DeriveBits]"

definition importRSAPublicJwk :: "platform \<Rightarrow> json \<Rightarrow> error + CryptoKey" where
  "importRSAPublicJwk W jwk = subtle_importKey_jwk W RsaOaepPublicKey jwk True [WrapKey]"

definition importRSAPrivateJwk :: "platform \<Rightarrow> json \<Rightarrow> error + CryptoKey" where
  "importRSAPrivateJwk W jwk = subtle_importKey_jwk W RsaOaepPrivateKey jwk True [UnwrapKey]"

text \<open>
  \<^verbatim>\<open>deriveKEK_ECDH\<close>: the ECDH shared secret (256 bits), imported as an HKDF key, from
  which HKDF-SHA256 with the salt and the context string derives a 256-bit AES-GCM key
  that can only wrap and unwrap.
\<close>

definition deriveKEK_ECDH ::
  "platform \<Rightarrow> CryptoKey \<Rightarrow> CryptoKey \<Rightarrow> bytes \<Rightarrow> jsstring \<Rightarrow> error + CryptoKey" where
  "deriveKEK_ECDH W senderPriv recipientPub salt info =
     bind_e (subtle_deriveBits_ecdh W recipientPub senderPriv) (\<lambda>sharedSecret.
     bind_e (import_raw_kdf HkdfKey False [DeriveKey] sharedSecret) (\<lambda>baseKey.
     subtle_deriveKey_aes256 W (HkdfParams salt (TextEncoder_encode info)) baseKey
       False [WrapKey, UnwrapKey]))"

section \<open>Key agreement and wrapping engine (wrap.ts)\<close>

definition wrapAesKeyWithECDH ::
  "platform \<Rightarrow> CryptoKey \<Rightarrow> CryptoKey \<Rightarrow> CryptoKey \<Rightarrow> bytes \<Rightarrow> error + bytes" where
  "wrapAesKeyWithECDH W aesKey senderPrivECDH recipientPubECDH salt =
     bind_e (deriveKEK_ECDH W senderPrivECDH recipientPubECDH salt (js ''wrap'')) (\<lambda>kek.
     subtle_wrapKey_raw W [] aesKey kek (AesGcmParams (take 12 salt)))"

definition unwrapAesKeyWithECDH ::
  "platform \<Rightarrow> bytes \<Rightarrow> CryptoKey \<Rightarrow> CryptoKey \<Rightarrow> bytes \<Rightarrow> error + CryptoKey" where
  "unwrapAesKeyWithECDH W wrappedKey recipientPrivECDH senderPubECDH salt =
     bind_e (deriveKEK_ECDH W recipientPrivECDH senderPubECDH salt (js ''wrap'')) (\<lambda>kek.
     subtle_unwrapKey_raw_aes W wrappedKey kek (AesGcmParams (take 12 salt)) False [Decrypt])"

text \<open>RSA-OAEP encryption draws its 32-byte seed from the random tape.\<close>

definition wrapAesKeyWithRSA ::
  "platform \<Rightarrow> tape \<Rightarrow> CryptoKey \<Rightarrow> CryptoKey \<Rightarrow> (error + bytes) \<times> tape" where
  "wrapAesKeyWithRSA W t aesKey recipientRsaPub =
     (let (seed, t') = getRandomValues 32 t
      in (subtle_wrapKey_raw W seed aesKey recipientRsaPub RsaOaepParams, t'))"

definition unwrapAesKeyWithRSA :: "platform \<Rightarrow> bytes \<Rightarrow> CryptoKey \<Rightarrow> error + CryptoKey" where
  "unwrapAesKeyWithRSA W wrappedKey recipientRsaPriv =
     subtle_unwrapKey_raw_aes W wrappedKey recipientRsaPriv RsaOaepParams False [Decrypt]"

section \<open>Backup sealer (backup.ts)\<close>

definition deriveKeyFromPassphrase :: "platform \<Rightarrow> jsstring \<Rightarrow> bytes \<Rightarrow> error + CryptoKey" where
  "deriveKeyFromPassphrase W passphrase salt =
     bind_e (import_raw_kdf Pbkdf2Key False [DeriveKey] (TextEncoder_encode passphrase))
       (\<lambda>passphraseKey.
     subtle_deriveKey_aes256 W (Pbkdf2Params salt 200000) passphraseKey False [Encrypt, Decrypt])"


definition SealedBackup :: "jsstring \<Rightarrow> jsstring \<Rightarrow> jsstring \<Rightarrow> json" where
  "SealedBackup ciphertext iv salt =
     JObject [(js ''ciphertext'', JString ciphertext), (js ''iv'', JString iv),
              (js ''salt'', JString salt)]"



text \<open>
  Reading a member of a parsed value: a \<^verbatim>\<open>TypeError\<close> on \<^verbatim>\<open>null\<close>, \<open>None\<close> (that
  is \<^verbatim>\<open>undefined\<close>) when there is no such member. \<^verbatim>\<open>atob\<close> converts its argument to a
  string first.
\<close>

definition get_member :: "json \<Rightarrow> jsstring \<Rightarrow> error + json option" where
  "get_member v name =
     (case v of
        JNull \<Rightarrow> Inl TypeError
      | JObject members \<Rightarrow> Inr (map_of members name)
      | _ \<Rightarrow> Inr None)"

definition to_DOMString :: "platform \<Rightarrow> json option \<Rightarrow> jsstring" where
  "to_DOMString W v =
     (case v of
        None \<Rightarrow> js ''undefined''
      | Some (JString s) \<Rightarrow> s
      | Some x \<Rightarrow> js_ToString W x)"

definition importKeysSealed :: "platform \<Rightarrow> bytes \<Rightarrow> jsstring \<Rightarrow> error + json" where
  "importKeysSealed W blob passphrase =
     (let text = TextDecoder_decode blob in
      case json_parse W text of
        None \<Rightarrow> Inl SyntaxError
      | Some sealed \<Rightarrow>
          bind_e (get_member sealed (js ''salt'')) (\<lambda>sealed_salt.
          bind_e (base64ToArrayBuffer (to_DOMString W sealed_salt)) (\<lambda>salt.
          bind_e (get_member sealed (js ''iv'')) (\<lambda>sealed_iv.
          bind_e (base64ToArrayBuffer (to_DOMString W sealed_iv)) (\<lambda>iv.
          bind_e (get_member sealed (js ''ciphertext'')) (\<lambda>sealed_ciphertext.
          bind_e (base64ToArrayBuffer (to_DOMString W sealed_ciphertext)) (\<lambda>ciphertext.
          bind_e (deriveKeyFromPassphrase W passphrase salt) (\<lambda>key.
          catch_e
            (bind_e (aesGcmDecrypt W key iv ciphertext) (\<lambda>plaintext.
             case json_parse W (arrayBufferToString plaintext) of
               None \<Rightarrow> Inl SyntaxError
             | Some backupData \<Rightarrow> Inr backupData))
            (\<lambda>error. Inl (Error (js ''Invalid passphrase or corrupted backup file'')))))))))))"

section \<open>The Chat page: data\<close>

record KeyPair =
  publicKey :: CryptoKey
  privateKey :: CryptoKey

record CryptoKeys =
  ecdhKeyPair :: "KeyPair option"
  rsaKeyPair :: "KeyPair option"

text \<open>A row of the \<^verbatim>\<open>user_keys\<close> table, as far as it is read here.\<close>

record user_keys_row =
  ecdh_public_key_jwk :: json
  rsa_public_key_jwk :: json

text \<open>
  The \<^verbatim>\<open>file_meta\<close> object of a message. A member that is absent is \<open>None\<close>.
\<close>

record FileMeta =
  fm_name :: "jsstring option"
  fm_type :: "jsstring option"
  fm_size :: "nat option"
  fm_iv :: "jsstring option"
  fm_salt :: "jsstring option"
  fm_wrapped_key :: "jsstring option"
  fm_wrap_alg :: "jsstring option"
  fm_encrypted_data_base64 :: "jsstring option"
  fm_storage_type :: "jsstring option"

text \<open>
  A message, as \<^verbatim>\<open>sendMessage\<close> hands it to the message store and as the store hands
  it back. The row's \<^verbatim>\<open>id\<close> and \<^verbatim>\<open>created_at\<close>, which the store assigns and the
  functions below never read, are left out.
\<close>

record Message =
  chat_id :: jsstring
  sender_id :: jsstring
  recipient_id :: jsstring
  ciphertext_base64 :: jsstring
  iv_base64 :: jsstring
  wrapped_key_base64 :: jsstring
  wrap_alg :: jsstring
  salt_base64 :: jsstring
  hash_hex :: jsstring
  file_url :: "jsstring option"
  file_meta :: "FileMeta option"

text \<open>
  What a page holds when one of its functions runs: the signed-in user's id, the local
  key pairs, the other party's row (\<^verbatim>\<open>recipient\<close>), the route parameter
  \<^verbatim>\<open>recipientId\<close>, the chat id; and what the hosted backend answers: the
  \<^verbatim>\<open>ecdh_public_key_jwk\<close> stored for a user id, and the download of a stored file.
\<close>

record page_state =
  user :: "jsstring option"
  keys :: "CryptoKeys option"
  recipient :: "user_keys_row option"
  recipientId :: jsstring
  chatId :: "jsstring option"
  user_keys :: "jsstring \<Rightarrow> json option"
  storage_download :: "jsstring \<Rightarrow> bytes option"

text \<open>What \<^verbatim>\<open>decryptMessage\<close> returns; the decrypted file is the content and type of
  the \<^verbatim>\<open>Blob\<close> behind the object URL.\<close>

record DecryptedFile =
  df_blob :: bytes
  df_name :: jsstring
  df_type :: jsstring
  df_size :: nat

record Decrypted =
  dec_text :: jsstring
  dec_file :: "DecryptedFile option"

text \<open>JavaScript truthiness of an optional string, and \<^verbatim>\<open>a || b\<close> on it.\<close>

definition truthy :: "jsstring option \<Rightarrow> bool" where
  "truthy v = (case v of None \<Rightarrow> False | Some s \<Rightarrow> s \<noteq> [])"

definition or_else :: "jsstring option \<Rightarrow> jsstring \<Rightarrow> jsstring" where
  "or_else v d = (case v of None \<Rightarrow> d | Some s \<Rightarrow> if s = [] then d else s)"

text \<open>\<^verbatim>\<open>pair!.privateKey\<close>: a \<^verbatim>\<open>TypeError\<close> when the pair is \<^verbatim>\<open>null\<close>.\<close>

definition privateKey_of :: "KeyPair option \<Rightarrow> error + CryptoKey" where
  "privateKey_of pair = (case pair of None \<Rightarrow> Inl TypeError | Some p \<Rightarrow> Inr (privateKey p))"

section \<open>The Chat page: \<^verbatim>\<open>decryptMessage\<close>\<close>

text \<open>
  The public agreement key of the other party of a message (lines 281--301, and again
  367--382): the recipient's when we sent the message or when the sender is the chat's
  recipient, else the sender's key fetched from the \<^verbatim>\<open>user_keys\<close> table.
\<close>

definition otherPartyEcdhPub_of ::
  "platform \<Rightarrow> page_state \<Rightarrow> user_keys_row \<Rightarrow> jsstring \<Rightarrow> Message \<Rightarrow> error + CryptoKey" where
  "otherPartyEcdhPub_of W st rcp uid msg =
     (if sender_id msg = uid then importECDHPublicJwk W (ecdh_public_key_jwk rcp)
      else if sender_id msg = recipientId st then importECDHPublicJwk W (ecdh_public_key_jwk rcp)
      else (case user_keys st (sender_id msg) of
              None \<Rightarrow> Inl (Error (js ''Sender keys not found''))
            | Some jwk \<Rightarrow> importECDHPublicJwk W jwk))"

text \<open>
  Lines 313--425, the file of a file message. \<open>Inr None\<close> is one of the early
  \<^verbatim>\<open>return { text: decryptedText }\<close>; the caller turns an error into \<open>None\<close> too.
\<close>

definition decryptMessage_file ::
  "platform \<Rightarrow> page_state \<Rightarrow> CryptoKeys \<Rightarrow> user_keys_row \<Rightarrow> jsstring \<Rightarrow> Message \<Rightarrow> FileMeta
     \<Rightarrow> error + DecryptedFile option" where
  "decryptMessage_file W st ks rcp uid msg fm =
     bind_e
       (if fm_storage_type fm = Some (js ''inline'') \<and> truthy (fm_encrypted_data_base64 fm) then
          bind_e (base64ToArrayBuffer (the (fm_encrypted_data_base64 fm))) (\<lambda>b. Inr (Some b))
        else if truthy (file_url msg) then Inr (storage_download st (the (file_url msg)))
        else Inr None)
       (\<lambda>buffer. case buffer of
          None \<Rightarrow> Inr None
        | Some encryptedFileBuffer \<Rightarrow>
            if \<not> truthy (fm_iv fm) \<or> \<not> truthy (fm_salt fm) \<or> \<not> truthy (fm_wrapped_key fm)
            then Inr None
            else
              bind_e (base64ToArrayBuffer (the (fm_iv fm))) (\<lambda>fileIv.
              bind_e (base64ToArrayBuffer (the (fm_salt fm))) (\<lambda>fileSalt.
              bind_e (base64ToArrayBuffer (the (fm_wrapped_key fm))) (\<lambda>fileWrappedKey.
              let fileWrapAlg = or_else (fm_wrap_alg fm) (wrap_alg msg) in
              bind_e
                (if fileWrapAlg = js ''ECDH'' then
                   bind_e (otherPartyEcdhPub_of W st rcp uid msg) (\<lambda>pub.
                   bind_e (privateKey_of (ecdhKeyPair ks)) (\<lambda>priv.
                   unwrapAesKeyWithECDH W fileWrappedKey priv pub fileSalt))
                 else
                   bind_e (privateKey_of (rsaKeyPair ks)) (\<lambda>priv.
                   unwrapAesKeyWithRSA W fileWrappedKey priv))
                (\<lambda>fileAesKey.
              bind_e (aesGcmDecrypt W fileAesKey fileIv encryptedFileBuffer) (\<lambda>decryptedFileBuffer.
              Inr (Some \<lparr>df_blob = decryptedFileBuffer,
                         df_name = or_else (fm_name fm) (js ''file''),
                         df_type = or_else (fm_type fm) (js ''application/octet-stream''),
                         df_size = (case fm_size fm of None \<Rightarrow> 0 | Some n \<Rightarrow> n)\<rparr>)))))))"

definition decryptMessage :: "platform \<Rightarrow> page_state \<Rightarrow> Message \<Rightarrow> error + Decrypted" where
  "decryptMessage W st msg =
     (case (keys st, recipient st, user st) of
        (Some ks, Some rcp, Some uid) \<Rightarrow>
          bind_e (base64ToArrayBuffer (iv_base64 msg)) (\<lambda>iv.
          bind_e (base64ToArrayBuffer (salt_base64 msg)) (\<lambda>salt.
          bind_e (base64ToArrayBuffer (ciphertext_base64 msg)) (\<lambda>ciphertext.
          bind_e (base64ToArrayBuffer (wrapped_key_base64 msg)) (\<lambda>wrappedKey.
          bind_e
            (if wrap_alg msg = js ''ECDH'' then
               bind_e (otherPartyEcdhPub_of W st rcp uid msg) (\<lambda>pub.
               bind_e (privateKey_of (ecdhKeyPair ks)) (\<lambda>priv.
               unwrapAesKeyWithECDH W wrappedKey priv pub salt))
             else
               bind_e (privateKey_of (rsaKeyPair ks)) (\<lambda>priv.
               unwrapAesKeyWithRSA W wrappedKey priv))
            (\<lambda>aesKey.
          bind_e (aesGcmDecrypt W aesKey iv ciphertext) (\<lambda>decrypted.
          let decryptedText = arrayBufferToString decrypted in
          (case file_meta msg of
             None \<Rightarrow> Inr \<lparr>dec_text = decryptedText, dec_file = None\<rparr>
           | Some fm \<Rightarrow>
               (case decryptMessage_file W st ks rcp uid msg fm of
                  Inl err \<Rightarrow> Inr \<lparr>dec_text = decryptedText, dec_file = None\<rparr>
                | Inr f \<Rightarrow> Inr \<lparr>dec_text = decryptedText, dec_file = f\<rparr>))))))))
      | _ \<Rightarrow> Inl (Error (js ''Keys, recipient, or user not loaded'')))"

section \<open>The Chat page: \<^verbatim>\<open>sendMessage\<close>\<close>

text \<open>
  Lines 613--622 (and 473--484 for the file key): wrap the one-time key on the
  agreement path; whatever that throws is caught, and the key is wrapped with RSA-OAEP.
  The result is the wrapped key and the tag.
\<close>

definition sendMessage_wrapKey ::
  "platform \<Rightarrow> tape \<Rightarrow> CryptoKeys \<Rightarrow> CryptoKey \<Rightarrow> CryptoKey \<Rightarrow> CryptoKey \<Rightarrow> bytes
     \<Rightarrow> (error + bytes \<times> jsstring) \<times> tape" where
  "sendMessage_wrapKey W t ks aesKey recipientEcdhPub recipientRsaPub salt =
     (case bind_e (privateKey_of (ecdhKeyPair ks)) (\<lambda>priv.
             wrapAesKeyWithECDH W aesKey priv recipientEcdhPub salt) of
        Inr wrappedKey \<Rightarrow> (Inr (wrappedKey, js ''ECDH''), t)
      | Inl error \<Rightarrow>
          (let (r, t') = wrapAesKeyWithRSA W t aesKey recipientRsaPub
           in (bind_e r (\<lambda>wrappedKey. Inr (wrappedKey, js ''RSA-OAEP'')), t')))"

text \<open>
  Lines 607--641: a fresh key, IV and salt; the plaintext encrypted; the key wrapped;
  the hash of the Base64 ciphertext; the message assembled. The recipient's public keys
  have been imported before (lines 441--442), the file part has set \<^verbatim>\<open>fileUrl\<close> and
  \<^verbatim>\<open>fileMeta\<close>.
\<close>

definition sendMessage_seal ::
  "platform \<Rightarrow> tape \<Rightarrow> CryptoKeys \<Rightarrow> jsstring \<Rightarrow> jsstring \<Rightarrow> jsstring \<Rightarrow> CryptoKey \<Rightarrow> CryptoKey
     \<Rightarrow> bytes \<Rightarrow> jsstring option \<Rightarrow> FileMeta option \<Rightarrow> (error + Message) \<times> tape" where
  "sendMessage_seal W t ks chat uid rid recipientEcdhPub recipientRsaPub plaintext fileUrl fileMeta =
     (let (k, t1) = genAesGcmKey t;
          (iv, t2) = generateIV t1;
          (salt, t3) = generateSalt t2
      in case k of
           Inl e \<Rightarrow> (Inl e, t3)
         | Inr aesKey \<Rightarrow>
             (case aesGcmEncrypt W aesKey iv plaintext of
                Inl e \<Rightarrow> (Inl e, t3)
              | Inr ciphertext \<Rightarrow>
                  (let (w, t4) = sendMessage_wrapKey W t3 ks aesKey recipientEcdhPub recipientRsaPub salt
                   in (bind_e w (\<lambda>(wrappedKey, wrapAlg).
                       bind_e (arrayBufferToBase64 ciphertext) (\<lambda>c64.
                       let hash = sha256Hex W (StringData c64) in
                       bind_e (arrayBufferToBase64 ciphertext) (\<lambda>ciphertextBase64.
                       bind_e (arrayBufferToBase64 iv) (\<lambda>iv64.
                       bind_e (arrayBufferToBase64 wrappedKey) (\<lambda>wrapped64.
                       bind_e (arrayBufferToBase64 salt) (\<lambda>salt64.
                       Inr \<lparr>chat_id = chat, sender_id = uid, recipient_id = rid,
                            ciphertext_base64 = ciphertextBase64, iv_base64 = iv64,
                            wrapped_key_base64 = wrapped64, wrap_alg = wrapAlg,
                            salt_base64 = salt64, hash_hex = hash,
                            file_url = fileUrl, file_meta = fileMeta\<rparr>)))))), t4))))"











section \<open>The Analytics page: \<^verbatim>\<open>loadMessageAnalytics\<close>\<close>

text \<open>
  The analysis of one message (lines 291--424), as far as it does not measure time or
  draw random bits: the flags and sizes of the \<^verbatim>\<open>MessageAnalytics\<close> entry.
\<close>

record MessageAnalytics =
  ma_wrap_alg :: jsstring
  ciphertext_size :: nat
  decrypted_size :: nat
  hash_verified :: bool
  decryption_success :: bool
  is_file :: bool

definition analyse_decrypt ::
  "platform \<Rightarrow> CryptoKeys \<Rightarrow> Message \<Rightarrow> CryptoKey option \<Rightarrow> bytes \<Rightarrow> bytes \<Rightarrow> bytes \<Rightarrow> bytes
     \<Rightarrow> error + jsstring" where
  "analyse_decrypt W ks msg otherPartyEcdhPub iv salt ciphertext wrappedKey =
     bind_e
       (if wrap_alg msg = js ''ECDH'' \<and> otherPartyEcdhPub \<noteq> None then
          bind_e (privateKey_of (ecdhKeyPair ks)) (\<lambda>priv.
          unwrapAesKeyWithECDH W wrappedKey priv (the otherPartyEcdhPub) salt)
        else
          bind_e (privateKey_of (rsaKeyPair ks)) (\<lambda>priv.
          unwrapAesKeyWithRSA W wrappedKey priv))
       (\<lambda>aesKeyForDecrypt.
     bind_e (aesGcmDecrypt W aesKeyForDecrypt iv ciphertext) (\<lambda>decryptedBuffer.
     Inr (arrayBufferToString decryptedBuffer)))"

definition analyse_message ::
  "platform \<Rightarrow> page_state \<Rightarrow> CryptoKeys \<Rightarrow> jsstring \<Rightarrow> Message \<Rightarrow> MessageAnalytics" where
  "analyse_message W st ks uid msg =
     (case
        bind_e (base64ToArrayBuffer (iv_base64 msg)) (\<lambda>iv.
        bind_e (base64ToArrayBuffer (salt_base64 msg)) (\<lambda>salt.
        bind_e (base64ToArrayBuffer (ciphertext_base64 msg)) (\<lambda>ciphertext.
        bind_e (base64ToArrayBuffer (wrapped_key_base64 msg)) (\<lambda>wrappedKey.
        let computedHash = sha256Hex W (StringData (ciphertext_base64 msg));
            hashVerified = (computedHash = hash_hex msg);
            otherPartyId = (if sender_id msg = uid then recipient_id msg else sender_id msg);
            otherPartyKeys = user_keys st otherPartyId;
            otherPartyEcdhPub =
              (case otherPartyKeys of
                 None \<Rightarrow> None
               | Some jwk \<Rightarrow>
                   if wrap_alg msg = js ''ECDH'' then
                     (case importECDHPublicJwk W jwk of Inl err \<Rightarrow> None | Inr k \<Rightarrow> Some k)
                   else None)
        in Inr (case analyse_decrypt W ks msg otherPartyEcdhPub iv salt ciphertext wrappedKey of
                  Inl decryptError \<Rightarrow>
                    \<lparr>ma_wrap_alg = wrap_alg msg,
                     ciphertext_size = length (ciphertext_base64 msg),
                     decrypted_size = 0,
                     hash_verified = hashVerified, decryption_success = False,
                     is_file = (file_meta msg \<noteq> None)\<rparr>
                | Inr decrypted \<Rightarrow>
                    \<lparr>ma_wrap_alg = wrap_alg msg,
                     ciphertext_size = length (ciphertext_base64 msg),
                     decrypted_size = length decrypted,
                     hash_verified = hashVerified, decryption_success = True,
                     is_file = (file_meta msg \<noteq> None)\<rparr>)))))
      of
        Inl err \<Rightarrow>
          \<lparr>ma_wrap_alg = wrap_alg msg,
           ciphertext_size = length (ciphertext_base64 msg),
           decrypted_size = 0,
           hash_verified = False, decryption_success = False,
           is_file = (file_meta msg \<noteq> None)\<rparr>
      | Inr a \<Rightarrow> a)"

definition loadMessageAnalytics ::
  "platform \<Rightarrow> page_state \<Rightarrow> Message list \<Rightarrow> MessageAnalytics list option" where
  "loadMessageAnalytics W st messages =
     (case (user st, keys st) of
        (Some uid, Some ks) \<Rightarrow> Some (map (analyse_message W st ks uid) messages)
      | _ \<Rightarrow> None)"

section \<open>What is assumed of the primitives and of the keys\<close>

text \<open>
  AES-GCM decryption under the same key and IV inverts encryption; RSA-OAEP decryption
  with the private key inverts encryption with the public key of the pair.
\<close>

definition aead_correct :: "platform \<Rightarrow> bool" where
  "aead_correct W \<longleftrightarrow>
     (\<forall>k iv p. aes_gcm_decrypt W k iv (aes_gcm_encrypt W k iv p) = Some p)"

definition rsa_pair :: "platform \<Rightarrow> bytes \<Rightarrow> bytes \<Rightarrow> bool" where
  "rsa_pair W priv pub \<longleftrightarrow>
     (\<forall>seed m c. rsa_oaep_encrypt W pub seed m = Some c \<longrightarrow> rsa_oaep_decrypt W priv c = Some m)"

text \<open>
  A private agreement key and a private encapsulation key as \<^verbatim>\<open>keys.ts\<close> generates
  or imports them: of the right kind, with the usage that unwrapping needs.
\<close>

definition agreement_private :: "CryptoKey \<Rightarrow> bool" where
  "agreement_private k \<longleftrightarrow> kind k = EcdhPrivateKey \<and> DeriveBits \<in> set (usages k)"

definition agreement_public :: "CryptoKey \<Rightarrow> bool" where
  "agreement_public k \<longleftrightarrow> kind k = EcdhPublicKey"

definition encapsulation_private :: "CryptoKey \<Rightarrow> bool" where
  "encapsulation_private k \<longleftrightarrow> kind k = RsaOaepPrivateKey \<and> UnwrapKey \<in> set (usages k)"

text \<open>
  An AES-GCM message key that can be wrapped: extractable, of 128, 192 or 256 bits.
\<close>

definition aes_message_key :: "CryptoKey \<Rightarrow> bool" where
  "aes_message_key k \<longleftrightarrow>
     kind k = AesGcmKey \<and> extractable k \<and>
     (length (material k) = 16 \<or> length (material k) = 24 \<or> length (material k) = 32)"

text \<open>The key-encryption key of the agreement path, from a shared secret and a salt.\<close>

definition kek_of :: "platform \<Rightarrow> bytes \<Rightarrow> bytes \<Rightarrow> CryptoKey" where
  "kek_of W secret salt =
     \<lparr>kind = AesGcmKey, extractable = False, usages = [WrapKey, UnwrapKey],
      material = hkdf_sha256 W (take 32 secret) salt (TextEncoder_encode (js ''wrap'')) 256\<rparr>"


text \<open>The fresh values of one seal, read off the tape in the order of lines 608--610.\<close>

definition fresh_key :: "tape \<Rightarrow> bytes" where
  "fresh_key t = fst (getRandomValues 32 t)"

definition fresh_iv :: "tape \<Rightarrow> bytes" where
  "fresh_iv t = fst (getRandomValues 12 (snd (getRandomValues 32 t)))"

definition fresh_salt :: "tape \<Rightarrow> bytes" where
  "fresh_salt t = fst (getRandomValues 16 (snd (getRandomValues 12 (snd (getRandomValues 32 t)))))"

definition tape_after_salt :: "tape \<Rightarrow> tape" where
  "tape_after_salt t = snd (getRandomValues 16 (snd (getRandomValues 12 (snd (getRandomValues 32 t)))))"

definition one_time_key :: "tape \<Rightarrow> CryptoKey" where
  "one_time_key t =
     \<lparr>kind = AesGcmKey, extractable = True, usages = [Encrypt, Decrypt], material = fresh_key t\<rparr>"

text \<open>The four Base64 fields of a message decode.\<close>

definition decodable :: "Message \<Rightarrow> bool" where
  "decodable msg \<longleftrightarrow>
     isl (base64ToArrayBuffer (iv_base64 msg)) = False \<and>
     isl (base64ToArrayBuffer (salt_base64 msg)) = False \<and>
     isl (base64ToArrayBuffer (ciphertext_base64 msg)) = False \<and>
     isl (base64ToArrayBuffer (wrapped_key_base64 msg)) = False"

text \<open>
  A hex digest, as the specification words it: every byte of the digest written as two
  lowercase hexadecimal digits, the high one first.
\<close>

definition hex_digits :: jsstring where
  "hex_digits = js ''0123456789abcdef''"

definition hex_of_byte :: "byte \<Rightarrow> jsstring" where
  "hex_of_byte b = [hex_digits ! (unat b div 16), hex_digits ! (unat b mod 16)]"

definition hex_digest :: "bytes \<Rightarrow> jsstring" where
  "hex_digest digest = concat (map hex_of_byte digest)"

text \<open>
  The key that the analysis of a message unwraps (Analytics, lines 304--336): on the
  agreement path when the tag is \<open>ECDH\<close> and the other party's agreement key is on
  record and imports, with RSA-OAEP in every other case.
\<close>

definition analysis_peer :: "platform \<Rightarrow> page_state \<Rightarrow> jsstring \<Rightarrow> Message \<Rightarrow> CryptoKey option" where
  "analysis_peer W st uid msg =
     (if wrap_alg msg = js ''ECDH'' then
        (case user_keys st (if sender_id msg = uid then recipient_id msg else sender_id msg) of
           None \<Rightarrow> None
         | Some jwk \<Rightarrow> (case importECDHPublicJwk W jwk of Inl e \<Rightarrow> None | Inr k \<Rightarrow> Some k))
      else None)"

definition analysis_unwrap ::
  "platform \<Rightarrow> page_state \<Rightarrow> CryptoKeys \<Rightarrow> jsstring \<Rightarrow> Message \<Rightarrow> bytes \<Rightarrow> bytes
     \<Rightarrow> error + CryptoKey" where
  "analysis_unwrap W st ks uid msg salt wrappedKey =
     (case analysis_peer W st uid msg of
        Some pub \<Rightarrow>
          bind_e (privateKey_of (ecdhKeyPair ks)) (\<lambda>priv.
            unwrapAesKeyWithECDH W wrappedKey priv pub salt)
      | None \<Rightarrow>
          bind_e (privateKey_of (rsaKeyPair ks)) (\<lambda>priv. unwrapAesKeyWithRSA W wrappedKey priv))"

text \<open>The text of what \<^verbatim>\<open>decryptMessage\<close> returns, or what it throws.\<close>

definition text_of :: "error + Decrypted \<Rightarrow> error + jsstring" where
  "text_of r = (case r of Inl e \<Rightarrow> Inl e | Inr d \<Rightarrow> Inr (dec_text d))"

text \<open>The message that a seal assembles around a wrapped key and its tag.\<close>

definition sealed_message ::
  "platform \<Rightarrow> tape \<Rightarrow> jsstring \<Rightarrow> jsstring \<Rightarrow> jsstring \<Rightarrow> bytes \<Rightarrow> jsstring option
     \<Rightarrow> FileMeta option \<Rightarrow> bytes \<Rightarrow> jsstring \<Rightarrow> Message" where
  "sealed_message W t chat uid rid plaintext fileUrl fileMeta wrappedKey wrapAlg =
     \<lparr>chat_id = chat, sender_id = uid, recipient_id = rid,
      ciphertext_base64 = b64_encode (aes_gcm_encrypt W (fresh_key t) (fresh_iv t) plaintext),
      iv_base64 = b64_encode (fresh_iv t),
      wrapped_key_base64 = b64_encode wrappedKey, wrap_alg = wrapAlg,
      salt_base64 = b64_encode (fresh_salt t),
      hash_hex = sha256Hex W (StringData
                   (b64_encode (aes_gcm_encrypt W (fresh_key t) (fresh_iv t) plaintext))),
      file_url = fileUrl, file_meta = fileMeta\<rparr>"







definition passphrase_key :: "platform \<Rightarrow> jsstring \<Rightarrow> bytes \<Rightarrow> CryptoKey" where
  "passphrase_key W passphrase salt =
     \<lparr>kind = AesGcmKey, extractable = False, usages = [Encrypt, Decrypt],
      material = pbkdf2_sha256 W (TextEncoder_encode passphrase) salt 200000 256\<rparr>"


section \<open>Concrete inputs\<close>



subsection \<open>A small platform\<close>

text \<open>
  An instance of the platform with primitives simple enough to compute by hand. They keep
  the laws assumed of the real ones and nothing of their security: a public key is its
  private key, the shared secret and the derived keys are sums of bytes, encryption adds
  the sum of the key to every byte and appends a one-byte tag.
\<close>

definition toy_sum :: "bytes \<Rightarrow> byte" where
  "toy_sum bs = foldr (+) bs 0"

definition toy_encrypt :: "bytes \<Rightarrow> bytes \<Rightarrow> bytes \<Rightarrow> bytes" where
  "toy_encrypt k iv p = map (\<lambda>b. b + toy_sum k) p @ [toy_sum k + toy_sum iv]"

definition toy_decrypt :: "bytes \<Rightarrow> bytes \<Rightarrow> bytes \<Rightarrow> bytes option" where
  "toy_decrypt k iv c =
     (if c \<noteq> [] \<and> last c = toy_sum k + toy_sum iv
      then Some (map (\<lambda>b. b - toy_sum k) (butlast c)) else None)"

definition toy_rsa_encrypt :: "bytes \<Rightarrow> bytes \<Rightarrow> bytes \<Rightarrow> bytes option" where
  "toy_rsa_encrypt pub seed m =
     Some (map (\<lambda>b. b + toy_sum seed) m @ [toy_sum seed, toy_sum pub])"

definition toy_rsa_decrypt :: "bytes \<Rightarrow> bytes \<Rightarrow> bytes option" where
  "toy_rsa_decrypt priv c =
     (if 2 \<le> length c \<and> last c = toy_sum priv
      then Some (map (\<lambda>b. b - last (butlast c)) (butlast (butlast c))) else None)"

text \<open>
  The toy JSON text: a string is written as it is, followed by a semicolon (so it must
  not contain one); a value starts with a letter that tells its kind; arrays and objects
  end with a full stop. Numbers are not kept. The parser takes fuel.
\<close>

definition toy_str :: "jsstring \<Rightarrow> jsstring" where
  "toy_str s = s @ [0x3B]"

primrec toy_stringify :: "json \<Rightarrow> jsstring" where
  "toy_stringify JNull = [0x6E]"
| "toy_stringify (JBool b) = (if b then [0x74] else [0x66])"
| "toy_stringify (JNumber i) = [0x6E]"
| "toy_stringify (JString s) = 0x73 # toy_str s"
| "toy_stringify (JArray xs) = 0x61 # concat (map toy_stringify xs) @ [0x2E]"
| "toy_stringify (JObject ms) =
     0x6F # concat (map (\<lambda>(k, v). toy_str k @ v) (map (map_prod id toy_stringify) ms)) @ [0x2E]"

fun toy_parse_str :: "jsstring \<Rightarrow> (jsstring \<times> jsstring) option" where
  "toy_parse_str [] = None"
| "toy_parse_str (a # r) =
     (if a = 0x3B then Some ([], r)
      else (case toy_parse_str r of
              None \<Rightarrow> None
            | Some (s, rest) \<Rightarrow> Some (a # s, rest)))"

fun toy_parse_value :: "nat \<Rightarrow> jsstring \<Rightarrow> (json \<times> jsstring) option"
  and toy_parse_items :: "nat \<Rightarrow> jsstring \<Rightarrow> (json list \<times> jsstring) option"
  and toy_parse_members :: "nat \<Rightarrow> jsstring \<Rightarrow> ((jsstring \<times> json) list \<times> jsstring) option"
where
  "toy_parse_value 0 s = None"
| "toy_parse_value (Suc n) [] = None"
| "toy_parse_value (Suc n) (c # r) =
     (if c = 0x6E then Some (JNull, r)
      else if c = 0x74 then Some (JBool True, r)
      else if c = 0x66 then Some (JBool False, r)
      else if c = 0x73 then
        (case toy_parse_str r of None \<Rightarrow> None | Some (s, rest) \<Rightarrow> Some (JString s, rest))
      else if c = 0x61 then
        (case toy_parse_items n r of None \<Rightarrow> None | Some (xs, rest) \<Rightarrow> Some (JArray xs, rest))
      else if c = 0x6F then
        (case toy_parse_members n r of None \<Rightarrow> None | Some (ms, rest) \<Rightarrow> Some (JObject ms, rest))
      else None)"
| "toy_parse_items 0 s = None"
| "toy_parse_items (Suc n) [] = None"
| "toy_parse_items (Suc n) (c # r) =
     (if c = 0x2E then Some ([], r)
      else (case toy_parse_value n (c # r) of
              None \<Rightarrow> None
            | Some (x, rest) \<Rightarrow>
                (case toy_parse_items n rest of
                   None \<Rightarrow> None
                 | Some (xs, rest') \<Rightarrow> Some (x # xs, rest'))))"
| "toy_parse_members 0 s = None"
| "toy_parse_members (Suc n) [] = None"
| "toy_parse_members (Suc n) (c # r) =
     (if c = 0x2E then Some ([], r)
      else (case toy_parse_str (c # r) of
              None \<Rightarrow> None
            | Some (k, rest) \<Rightarrow>
                (case toy_parse_value n rest of
                   None \<Rightarrow> None
                 | Some (v, rest') \<Rightarrow>
                     (case toy_parse_members n rest' of
                        None \<Rightarrow> None
                      | Some (ms, rest'') \<Rightarrow> Some ((k, v) # ms, rest'')))))"

definition toy_parse :: "jsstring \<Rightarrow> json option" where
  "toy_parse s =
     (case toy_parse_value (Suc (length s)) s of
        Some (v, []) \<Rightarrow> Some v
      | _ \<Rightarrow> None)"

definition toy :: platform where
  "toy =
     \<lparr>ecdh_p256 = (\<lambda>priv pub. Some (replicate 32 (toy_sum priv + toy_sum pub))),
      hkdf_sha256 = (\<lambda>ikm salt info n. replicate (n div 8) (toy_sum ikm + toy_sum salt + toy_sum info)),
      pbkdf2_sha256 = (\<lambda>pw salt iterations n.
                        replicate (n div 8) (toy_sum pw + toy_sum salt + of_nat iterations)),
      aes_gcm_encrypt = toy_encrypt,
      aes_gcm_decrypt = toy_decrypt,
      rsa_oaep_encrypt = toy_rsa_encrypt,
      rsa_oaep_decrypt = toy_rsa_decrypt,
      sha256 = (\<lambda>data. [toy_sum data, of_nat (length data)]),
      jwk_key_data = (\<lambda>k jwk. case jwk of JString s \<Rightarrow> Some (map ucast s) | _ \<Rightarrow> None),
      json_stringify = (\<lambda>v indent. toy_stringify v),
      json_parse = toy_parse,
      js_ToString = (\<lambda>v. js ''[object Object]'')\<rparr>"

subsection \<open>Two identities on the small platform\<close>

definition toy_key :: "key_kind \<Rightarrow> key_usage list \<Rightarrow> bytes \<Rightarrow> CryptoKey" where
  "toy_key k us m = \<lparr>kind = k, extractable = True, usages = us, material = m\<rparr>"

definition toy_identity :: "bytes \<Rightarrow> bytes \<Rightarrow> CryptoKeys" where
  "toy_identity e r =
     \<lparr>ecdhKeyPair = Some \<lparr>publicKey = toy_key EcdhPublicKey [] e,
                          privateKey = toy_key EcdhPrivateKey [DeriveKey, DeriveBits] e\<rparr>,
      rsaKeyPair = Some \<lparr>publicKey = toy_key RsaOaepPublicKey [WrapKey] r,
                         privateKey = toy_key RsaOaepPrivateKey [UnwrapKey] r\<rparr>\<rparr>"

definition toy_row :: "bytes \<Rightarrow> bytes \<Rightarrow> user_keys_row" where
  "toy_row e r =
     \<lparr>ecdh_public_key_jwk = JString (map ucast e), rsa_public_key_jwk = JString (map ucast r)\<rparr>"

definition alice_keys :: CryptoKeys where
  "alice_keys = toy_identity [1, 2, 3] [4, 5]"

definition bob_keys :: CryptoKeys where
  "bob_keys = toy_identity [6, 7, 8] [9, 10]"

definition alice_row :: user_keys_row where
  "alice_row = toy_row [1, 2, 3] [4, 5]"

definition bob_row :: user_keys_row where
  "bob_row = toy_row [6, 7, 8] [9, 10]"

definition bob_ecdh_pub :: CryptoKey where
  "bob_ecdh_pub = toy_key EcdhPublicKey [] [6, 7, 8]"

definition bob_rsa_pub :: CryptoKey where
  "bob_rsa_pub = toy_key RsaOaepPublicKey [WrapKey] [9, 10]"

text \<open>Bob's Chat page, open on the chat with Alice.\<close>

definition bob_state :: page_state where
  "bob_state =
     \<lparr>user = Some (js ''bob''), keys = Some bob_keys, recipient = Some alice_row,
      recipientId = js ''alice'', chatId = Some (js ''chat''),
      user_keys = (\<lambda>uid. None), storage_download = (\<lambda>path. None)\<rparr>"

definition tape0 :: tape where
  "tape0 = (\<lambda>i. of_nat i)"

text \<open>
  What Alice's \<^verbatim>\<open>sendMessage\<close> assembles for Bob on the agreement path, and on the
  encapsulation path when she has no agreement key pair.
\<close>

definition toy_secret :: bytes where
  "toy_secret = replicate 32 (toy_sum [1, 2, 3] + toy_sum [6, 7, 8])"

definition alice_to_bob :: "bytes \<Rightarrow> Message" where
  "alice_to_bob plaintext =
     sealed_message toy tape0 (js ''chat'') (js ''alice'') (js ''bob'') plaintext None None
       (toy_encrypt (material (kek_of toy toy_secret (fresh_salt tape0)))
          (take 12 (fresh_salt tape0)) (fresh_key tape0))
       (js ''ECDH'')"

definition alice_no_ecdh :: CryptoKeys where
  "alice_no_ecdh = alice_keys\<lparr>ecdhKeyPair := None\<rparr>"

definition alice_to_bob_rsa :: "bytes \<Rightarrow> Message" where
  "alice_to_bob_rsa plaintext =
     sealed_message toy tape0 (js ''chat'') (js ''alice'') (js ''bob'') plaintext None None
       (the (toy_rsa_encrypt [9, 10] (fst (getRandomValues 32 (tape_after_salt tape0)))
               (fresh_key tape0)))
       (js ''RSA-OAEP'')"


text \<open>Bob's Analytics page: the directory of public keys has Alice's agreement key.\<close>

definition bob_analytics :: page_state where
  "bob_analytics =
     bob_state\<lparr>user_keys := (\<lambda>uid. if uid = js ''alice''
                                    then Some (ecdh_public_key_jwk alice_row) else None)\<rparr>"

text \<open>
  Alice's message with the stored hash replaced, and with the wrapped key replaced by
  the empty string.
\<close>

definition wrong_hash :: Message where
  "wrong_hash = (alice_to_bob [0x68, 0x69])\<lparr>hash_hex := js ''00''\<rparr>"

definition wrong_key :: Message where
  "wrong_key = (alice_to_bob [0x68, 0x69])\<lparr>wrapped_key_base64 := []\<rparr>"

definition bom_hi :: jsstring where
  "bom_hi = [0xFEFF, 0x68, 0x69]"

text \<open>A sealed backup whose ciphertext member is no Base64 text, on the small platform.\<close>

definition broken_backup :: json where
  "broken_backup =
     SealedBackup (js ''!!!!'') (js ''AAAAAAAAAAAAAAAA'') (js ''AAAAAAAAAAAAAAAAAAAAAA=='')"

definition broken_blob :: bytes where
  "broken_blob = TextEncoder_encode (toy_stringify broken_backup)"

section \<open>Base64 codec: encode then decode\<close>

lemma unat_byte: "unat (a :: byte) < 256"
proof -
  have "unat a < 2 ^ LENGTH(8)" by (rule unsigned_less)
  then show ?thesis by simp
qed

lemma b64_index_char: "i < 64 \<Longrightarrow> b64_index (b64_char i) = Some i"
  by (auto simp: b64_index_def b64_char_def Let_def unat_of_nat take_bit_nat_eq_self)

lemma b64_char_not_pad: "i < 64 \<Longrightarrow> b64_char i \<noteq> 0x3D"
  using b64_index_char [of i] by (auto simp: b64_index_def)

lemma b64_char_not_ws: "i < 64 \<Longrightarrow> \<not> ascii_whitespace (b64_char i)"
  using b64_index_char [of i] by (auto simp: b64_index_def ascii_whitespace_def)

lemma b64_sextets_bound: "i \<in> set (b64_sextets bs) \<Longrightarrow> i < 64"
proof (induction bs arbitrary: i rule: b64_sextets.induct)
  case (1 a b c rest)
  have "unat a < 256" "unat b < 256" "unat c < 256"
    by (rule unat_byte)+
  with 1 show ?case by auto
next
  case (2 a b)
  have "unat a < 256" "unat b < 256"
    by (rule unat_byte)+
  with 2 show ?case by auto
next
  case (3 a)
  have "unat a < 256" by (rule unat_byte)
  with 3 show ?case by auto
qed simp

lemma those_indices_chars:
  "\<forall>i \<in> set is. i < 64 \<Longrightarrow> those_indices (map b64_char is) = Some is"
  by (induction "is") (simp_all add: b64_index_char)

lemma octet_hi: "(of_nat (unat a div 4 * 4 + (unat a mod 4 * 16 + unat (b :: byte) div 16) div 16) :: byte) = a"
proof -
  have "unat b < 256" by (rule unat_byte)
  then have "(unat a mod 4 * 16 + unat b div 16) div 16 = unat a mod 4" by simp
  then show ?thesis by simp
qed

lemma octet_mid:
  "(of_nat ((unat (a :: byte) mod 4 * 16 + unat b div 16) mod 16 * 16 + (unat b mod 16 * 4 + c) div 4) :: byte) = b"
  if "c < 4"
proof -
  have "unat b < 256" by (rule unat_byte)
  then have "(unat a mod 4 * 16 + unat b div 16) mod 16 = unat b div 16" by simp
  moreover have "(unat b mod 16 * 4 + c) div 4 = unat b mod 16" using that by simp
  ultimately show ?thesis by simp
qed

lemma octet_lo:
  "(of_nat ((unat (b :: byte) mod 16 * 4 + unat c div 64) mod 4 * 64 + unat c mod 64) :: byte) = c"
proof -
  have "unat c < 256" by (rule unat_byte)
  then have "(unat b mod 16 * 4 + unat c div 64) mod 4 = unat c div 64" by simp
  then show ?thesis by simp
qed

lemma b64_octets_sextets: "b64_octets (b64_sextets bs) = bs"
proof (induction bs rule: b64_sextets.induct)
  case (1 a b c rest)
  have "unat c div 64 < 4" using unat_byte [of c] by simp
  then have "b64_octets (b64_sextets (a # b # c # rest)) = [a, b, c] @ b64_octets (b64_sextets rest)"
    by (simp only: b64_sextets.simps b64_octets.simps append_Cons append_Nil
        octet_hi octet_mid octet_lo)
  with 1 show ?case by simp
next
  case (2 a b)
  have "b64_octets (b64_sextets [a, b]) = [a, b]"
    using octet_mid [of 0 a b] by (simp only: b64_sextets.simps b64_octets.simps octet_hi) simp
  then show ?case .
next
  case (3 a)
  show ?case using octet_hi [of a 0] by simp
qed simp

lemma length_b64_sextets: "length (b64_sextets bs) = (4 * length bs + 2) div 3"
  by (induction bs rule: b64_sextets.induct) simp_all


lemma b64_chars_not_ws:
  "filter (\<lambda>c. \<not> ascii_whitespace c) (map b64_char (b64_sextets bs)) = map b64_char (b64_sextets bs)"
  by (rule filter_True) (auto simp: b64_char_not_ws b64_sextets_bound)

lemma b64_encode_not_ws:
  "filter (\<lambda>c. \<not> ascii_whitespace c) (b64_encode bs) = b64_encode bs"
proof -
  have "\<not> ascii_whitespace 0x3D" by (simp add: ascii_whitespace_def)
  then show ?thesis by (simp add: b64_encode_def b64_chars_not_ws)
qed

lemma last_b64_chars:
  "b64_sextets bs \<noteq> [] \<Longrightarrow> last (map b64_char (b64_sextets bs)) \<noteq> 0x3D"
proof -
  assume "b64_sextets bs \<noteq> []"
  then have "last (b64_sextets bs) \<in> set (b64_sextets bs)" by (rule last_in_set)
  then have "last (b64_sextets bs) < 64" by (rule b64_sextets_bound)
  then have "b64_char (last (b64_sextets bs)) \<noteq> 0x3D" by (rule b64_char_not_pad)
  with \<open>b64_sextets bs \<noteq> []\<close> show ?thesis by (simp add: last_map)
qed

lemma b64_sextets_Nil: "b64_sextets bs = [] \<longleftrightarrow> bs = []"
  by (cases bs rule: b64_sextets.cases) simp_all

lemma strip_padding_encode:
  "strip_padding (b64_encode bs) = map b64_char (b64_sextets bs)"
proof -
  let ?cs = "map b64_char (b64_sextets bs)"
  have len: "length ?cs = (4 * length bs + 2) div 3" by (simp add: length_b64_sextets)
  consider (zero) "length bs mod 3 = 0" | (one) "length bs mod 3 = 1" | (two) "length bs mod 3 = 2"
    by linarith
  then show ?thesis
  proof cases
    case zero
    then have enc: "b64_encode bs = ?cs" by (simp add: b64_encode_def)
    show ?thesis
    proof (cases "bs = []")
      case True
      then show ?thesis by (simp add: b64_encode_def strip_padding_def)
    next
      case False
      then have "last ?cs \<noteq> 0x3D" by (intro last_b64_chars) (simp add: b64_sextets_Nil)
      then show ?thesis unfolding enc strip_padding_def by simp
    qed
  next
    case one
    then have ne: "bs \<noteq> []" by auto
    from one have enc: "b64_encode bs = ?cs @ [0x3D, 0x3D]"
      by (simp add: b64_encode_def numeral_2_eq_2)
    from one have "length (?cs @ [0x3D, 0x3D]) mod 4 = 0" unfolding length_append len by simp presburger
    then show ?thesis unfolding enc strip_padding_def  by (simp add: butlast_append)
  next
    case two
    then have ne: "bs \<noteq> []" by auto
    then have l: "last ?cs \<noteq> 0x3D" "?cs \<noteq> []"
      by (simp_all add: last_b64_chars b64_sextets_Nil del: last_map)
    from two have enc: "b64_encode bs = ?cs @ [0x3D]"
      by (simp add: b64_encode_def)
    from two have "length (?cs @ [0x3D]) mod 4 = 0" unfolding length_append len by simp presburger
    then show ?thesis unfolding enc strip_padding_def using l by (simp add: butlast_append)
  qed
qed

lemma length_b64_chars_mod: "length (map b64_char (b64_sextets bs)) mod 4 \<noteq> 1"
  by (induction bs rule: b64_sextets.induct) simp_all

lemma atob_b64_encode: "atob (b64_encode bs) = Inr (map ucast bs)"
  using length_b64_chars_mod [of bs]
  by (simp add: atob_def Let_def b64_encode_not_ws strip_padding_encode
      those_indices_chars b64_sextets_bound b64_octets_sextets)

lemma ucast_byte_roundtrip: "(ucast (ucast (b :: byte) :: code_unit) :: byte) = b"
  by (rule bit_word_eqI) (auto simp: bit_ucast_iff)

lemma ucast_byte_le: "\<not> 0xFF < (ucast (b :: byte) :: code_unit)"
proof -
  have "unat (ucast b :: code_unit) = unat b"
    by (simp add: unsigned_ucast_eq take_bit_nat_eq_self unat_byte [THEN order_less_trans])
  then have "unat (ucast b :: code_unit) < 256" using unat_byte [of b] by simp
  then show ?thesis by (simp add: word_less_nat_alt)
qed

lemma btoa_binary: "btoa (map ucast (bs :: bytes)) = Inr (b64_encode bs)"
  by (simp add: btoa_def ucast_byte_le ucast_byte_roundtrip comp_def)

section \<open>Length of the Base64 text\<close>




lemma arrayBufferToBase64_total: "arrayBufferToBase64 b = Inr (b64_encode b)"
  by (simp add: arrayBufferToBase64_def btoa_binary)


section \<open>Sealing\<close>

lemma genAesGcmKey_eq:
  "genAesGcmKey t = (Inr (one_time_key t), snd (getRandomValues 32 t))"
  by (simp add: genAesGcmKey_def subtle_generateKey_aes256_def new_aes_key_def one_time_key_def
      fresh_key_def split_beta)

lemma aesGcmEncrypt_one_time:
  "aesGcmEncrypt W (one_time_key t) iv p = Inr (aes_gcm_encrypt W (fresh_key t) iv p)"
  by (simp add: aesGcmEncrypt_def subtle_encrypt_def encrypt_op_def one_time_key_def)

lemma sendMessage_seal_eq:
  "sendMessage_seal W t ks chat uid rid pe pr P fu fm =
     (case sendMessage_wrapKey W (tape_after_salt t) ks (one_time_key t) pe pr (fresh_salt t) of
        (w, t4) \<Rightarrow>
          (bind_e w (\<lambda>(wrappedKey, wrapAlg).
             Inr (sealed_message W t chat uid rid P fu fm wrappedKey wrapAlg)), t4))"
  by (simp add: sendMessage_seal_def genAesGcmKey_eq generateIV_def generateSalt_def
      aesGcmEncrypt_one_time arrayBufferToBase64_total bind_e_def sealed_message_def
      fresh_iv_def fresh_salt_def tape_after_salt_def split_beta
      split: sum.splits prod.splits)

section \<open>Wrapping and unwrapping\<close>

lemma deriveKEK_ECDH_eq:
  assumes "agreement_private sk" "agreement_public pk"
    and "ecdh_p256 W (material sk) (material pk) = Some s" "32 \<le> length s"
  shows "deriveKEK_ECDH W sk pk salt (js ''wrap'') = Inr (kek_of W s salt)"
  using assms
  by (simp add: deriveKEK_ECDH_def subtle_deriveBits_ecdh_def agreement_private_def
      agreement_public_def bind_e_def import_raw_kdf_def subtle_deriveKey_aes256_def
      new_aes_key_def kek_of_def)

lemma wrapAesKeyWithECDH_eq:
  assumes "agreement_private sk" "agreement_public pk"
    and "ecdh_p256 W (material sk) (material pk) = Some s" "32 \<le> length s"
    and "kind aesKey = AesGcmKey" "extractable aesKey"
  shows "wrapAesKeyWithECDH W aesKey sk pk salt
         = Inr (aes_gcm_encrypt W (material (kek_of W s salt)) (take 12 salt) (material aesKey))"
  using assms
  by (simp add: wrapAesKeyWithECDH_def deriveKEK_ECDH_eq bind_e_def subtle_wrapKey_raw_def
      export_raw_def encrypt_op_def kek_of_def)

lemma unwrapAesKeyWithECDH_eq:
  assumes "agreement_private sk" "agreement_public pk"
    and "ecdh_p256 W (material sk) (material pk) = Some s" "32 \<le> length s"
    and "aead_correct W"
    and "length raw = 16 \<or> length raw = 24 \<or> length raw = 32"
  shows "unwrapAesKeyWithECDH W
           (aes_gcm_encrypt W (material (kek_of W s salt)) (take 12 salt) raw) sk pk salt
         = Inr \<lparr>kind = AesGcmKey, extractable = False, usages = [Decrypt], material = raw\<rparr>"
  using assms
  by (auto simp: unwrapAesKeyWithECDH_def deriveKEK_ECDH_eq bind_e_def
      subtle_unwrapKey_raw_aes_def decrypt_op_def kek_of_def aead_correct_def
      import_raw_aes_def new_aes_key_def)

lemma unwrapAesKeyWithRSA_eq:
  assumes "encapsulation_private rsk" "rsa_oaep_decrypt W (material rsk) c = Some raw"
    and "length raw = 16 \<or> length raw = 24 \<or> length raw = 32"
  shows "unwrapAesKeyWithRSA W c rsk
         = Inr \<lparr>kind = AesGcmKey, extractable = False, usages = [Decrypt], material = raw\<rparr>"
  using assms
  by (auto simp: unwrapAesKeyWithRSA_def bind_e_def encapsulation_private_def
      subtle_unwrapKey_raw_aes_def decrypt_op_def import_raw_aes_def new_aes_key_def)

lemma wrapAesKeyWithRSA_Inr:
  assumes "wrapAesKeyWithRSA W t aesKey rpk = (Inr w, t')"
  shows "rsa_oaep_encrypt W (material rpk) (fst (getRandomValues 32 t)) (material aesKey) = Some w
         \<and> kind aesKey = AesGcmKey \<and> t' = snd (getRandomValues 32 t)"
  using assms
  by (auto simp: wrapAesKeyWithRSA_def subtle_wrapKey_raw_def bind_e_def export_raw_def
      encrypt_op_def split_beta split: if_splits option.splits sum.splits)

lemma aesGcmDecrypt_unwrapped:
  assumes "aead_correct W"
  shows "aesGcmDecrypt W \<lparr>kind = AesGcmKey, extractable = False, usages = [Decrypt], material = k\<rparr>
           iv (aes_gcm_encrypt W k iv p) = Inr p"
  using assms
  by (simp add: aesGcmDecrypt_def subtle_decrypt_def decrypt_op_def aead_correct_def)

lemma base64ToArrayBuffer_encode: "base64ToArrayBuffer (b64_encode b) = Inr b"
  by (simp add: base64ToArrayBuffer_def bind_e_def atob_b64_encode ucast_byte_roundtrip comp_def)

lemma wrapAesKeyWithECDH_Inr:
  assumes "wrapAesKeyWithECDH W aesKey sk pk salt = Inr w"
  shows "\<exists>s. ecdh_p256 W (material sk) (material pk) = Some s \<and> 32 \<le> length s \<and>
             agreement_private sk \<and> agreement_public pk \<and> kind aesKey = AesGcmKey \<and>
             w = aes_gcm_encrypt W (material (kek_of W s salt)) (take 12 salt) (material aesKey)"
  using assms
  by (auto simp: wrapAesKeyWithECDH_def deriveKEK_ECDH_def subtle_deriveBits_ecdh_def
      bind_e_def import_raw_kdf_def subtle_deriveKey_aes256_def new_aes_key_def
      subtle_wrapKey_raw_def export_raw_def encrypt_op_def kek_of_def
      agreement_private_def agreement_public_def
      split: if_splits option.splits sum.splits)

lemma sendMessage_wrapKey_cases:
  assumes "sendMessage_wrapKey W t ks aesKey pe pr salt = (Inr (w, tag), t')"
  shows "(tag = js ''ECDH'' \<and> t' = t \<and>
          (\<exists>kp. ecdhKeyPair ks = Some kp \<and> wrapAesKeyWithECDH W aesKey (privateKey kp) pe salt = Inr w))
       \<or> (tag = js ''RSA-OAEP'' \<and> wrapAesKeyWithRSA W t aesKey pr = (Inr w, t') \<and>
          (\<exists>e. bind_e (privateKey_of (ecdhKeyPair ks))
                  (\<lambda>priv. wrapAesKeyWithECDH W aesKey priv pe salt) = Inl e))"
  using assms
  by (cases "wrapAesKeyWithRSA W t aesKey pr")
     (auto simp: sendMessage_wrapKey_def bind_e_def privateKey_of_def
      split: sum.splits option.splits)

lemma js_tags_differ: "js ''RSA-OAEP'' \<noteq> js ''ECDH''"
  by (simp add: js_def)

lemma importECDHPublicJwk_kind:
  "importECDHPublicJwk W jwk = Inr k \<Longrightarrow> agreement_public k"
  by (auto simp: importECDHPublicJwk_def subtle_importKey_jwk_def agreement_public_def
      split: if_splits option.splits)

lemma length_fresh_key: "length (fresh_key t) = 32"
  by (simp add: fresh_key_def getRandomValues_def)

lemma imported_private_keys:
  "importECDHPrivateJwk W jwk = Inr k \<Longrightarrow> agreement_private k"
  "importRSAPrivateJwk W jwk = Inr k \<Longrightarrow> encapsulation_private k"
  by (auto simp: importECDHPrivateJwk_def importRSAPrivateJwk_def subtle_importKey_jwk_def
      agreement_private_def encapsulation_private_def split: if_splits option.splits)

section \<open>Opening a sealed message\<close>

lemma sealed_message_sel [simp]:
  "sender_id (sealed_message W t chat uid rid P fu fm w tag) = uid"
  "iv_base64 (sealed_message W t chat uid rid P fu fm w tag) = b64_encode (fresh_iv t)"
  "salt_base64 (sealed_message W t chat uid rid P fu fm w tag) = b64_encode (fresh_salt t)"
  "ciphertext_base64 (sealed_message W t chat uid rid P fu fm w tag)
     = b64_encode (aes_gcm_encrypt W (fresh_key t) (fresh_iv t) P)"
  "wrapped_key_base64 (sealed_message W t chat uid rid P fu fm w tag) = b64_encode w"
  "wrap_alg (sealed_message W t chat uid rid P fu fm w tag) = tag"
  "file_meta (sealed_message W t chat uid rid P fu fm w tag) = fm"
  "hash_hex (sealed_message W t chat uid rid P fu fm w tag)
     = sha256Hex W (StringData (b64_encode (aes_gcm_encrypt W (fresh_key t) (fresh_iv t) P)))"
  by (simp_all add: sealed_message_def)

lemma decryptMessage_text:
  assumes st: "keys st = Some ks" "recipient st = Some row" "user st = Some me"
  shows "text_of (decryptMessage W st msg) =
     bind_e (base64ToArrayBuffer (iv_base64 msg)) (\<lambda>iv.
     bind_e (base64ToArrayBuffer (salt_base64 msg)) (\<lambda>salt.
     bind_e (base64ToArrayBuffer (ciphertext_base64 msg)) (\<lambda>ciphertext.
     bind_e (base64ToArrayBuffer (wrapped_key_base64 msg)) (\<lambda>wrappedKey.
     bind_e
       (if wrap_alg msg = js ''ECDH'' then
          bind_e (otherPartyEcdhPub_of W st row me msg) (\<lambda>pub.
          bind_e (privateKey_of (ecdhKeyPair ks)) (\<lambda>priv.
          unwrapAesKeyWithECDH W wrappedKey priv pub salt))
        else
          bind_e (privateKey_of (rsaKeyPair ks)) (\<lambda>priv.
          unwrapAesKeyWithRSA W wrappedKey priv))
       (\<lambda>aesKey.
     bind_e (aesGcmDecrypt W aesKey iv ciphertext) (\<lambda>decrypted.
     Inr (arrayBufferToString decrypted)))))))"
  using st
  by (simp add: decryptMessage_def text_of_def bind_e_def Let_def
      split: sum.splits option.splits)


lemma bind_e_simps:
  "bind_e (Inr v) f = f v"
  "bind_e (Inl e) f = Inl e"
  by (simp_all add: bind_e_def)

lemma otherPartyEcdhPub_of_sender:
  assumes "recipientId st = sender_id msg"
  shows "otherPartyEcdhPub_of W st row me msg = importECDHPublicJwk W (ecdh_public_key_jwk row)"
  using assms by (simp add: otherPartyEcdhPub_of_def)

lemma seal_open_roundtrip:
  assumes aead: "aead_correct W"
    and sender: "ecdhKeyPair ksA = Some kpA"
    and pubB: "importECDHPublicJwk W (ecdh_public_key_jwk rowB) = Inr pkB"
    and rpubB: "importRSAPublicJwk W (rsa_public_key_jwk rowB) = Inr rpkB"
    and stB: "keys stB = Some ksB" "recipient stB = Some rowA" "user stB = Some B"
             "recipientId stB = A"
    and kB: "ecdhKeyPair ksB = Some kpB" "agreement_private (privateKey kpB)"
            "rsaKeyPair ksB = Some rkpB" "encapsulation_private (privateKey rkpB)"
    and pubA: "importECDHPublicJwk W (ecdh_public_key_jwk rowA) = Inr pkA"
    and agree: "ecdh_p256 W (material (privateKey kpA)) (material pkB)
                  = ecdh_p256 W (material (privateKey kpB)) (material pkA)"
    and rsa: "rsa_pair W (material (privateKey rkpB)) (material rpkB)"
    and seal: "sendMessage_seal W t ksA chat A B pkB rpkB P fu fm = (Inr env, t')"
  shows "text_of (decryptMessage W stB env) = Inr (arrayBufferToString P)"
proof -
  obtain w tag where
    wk: "sendMessage_wrapKey W (tape_after_salt t) ksA (one_time_key t) pkB rpkB (fresh_salt t)
           = (Inr (w, tag), t')"
    and env: "env = sealed_message W t chat A B P fu fm w tag"
    using seal
    by (auto simp: sendMessage_seal_eq bind_e_def split: prod.splits sum.splits)
  let ?unwrapped = "\<lparr>kind = AesGcmKey, extractable = False, usages = [Decrypt],
                      material = fresh_key t\<rparr>"
  have len: "length (fresh_key t) = 16 \<or> length (fresh_key t) = 24 \<or> length (fresh_key t) = 32"
    by (simp add: length_fresh_key)
  have mat: "material (one_time_key t) = fresh_key t" by (simp add: one_time_key_def)
  have other: "otherPartyEcdhPub_of W stB rowA B env = Inr pkA"
    using stB pubA by (simp add: otherPartyEcdhPub_of_sender env)
  from sendMessage_wrapKey_cases [OF wk]
  have unwrap:
    "(if tag = js ''ECDH'' then
        bind_e (otherPartyEcdhPub_of W stB rowA B env) (\<lambda>pub.
        bind_e (privateKey_of (ecdhKeyPair ksB)) (\<lambda>priv.
        unwrapAesKeyWithECDH W w priv pub (fresh_salt t)))
      else
        bind_e (privateKey_of (rsaKeyPair ksB)) (\<lambda>priv. unwrapAesKeyWithRSA W w priv))
     = Inr ?unwrapped"
  proof (elim disjE conjE exE)
    fix kp
    assume tag: "tag = js ''ECDH''" and kp: "ecdhKeyPair ksA = Some kp"
      and wr: "wrapAesKeyWithECDH W (one_time_key t) (privateKey kp) pkB (fresh_salt t) = Inr w"
    from wrapAesKeyWithECDH_Inr [OF wr] obtain s where
      s: "ecdh_p256 W (material (privateKey kp)) (material pkB) = Some s" "32 \<le> length s"
      and w: "w = aes_gcm_encrypt W (material (kek_of W s (fresh_salt t))) (take 12 (fresh_salt t))
                    (fresh_key t)"
      by (auto simp: mat)
    have "ecdh_p256 W (material (privateKey kpB)) (material pkA) = Some s"
      using agree kp s sender by simp
    then have "unwrapAesKeyWithECDH W w (privateKey kpB) pkA (fresh_salt t) = Inr ?unwrapped"
      unfolding w
      by (intro unwrapAesKeyWithECDH_eq kB s aead len importECDHPublicJwk_kind [OF pubA])
    then show ?thesis
      using tag other kB by (simp add: bind_e_def privateKey_of_def)
  next
    fix e
    assume tag: "tag = js ''RSA-OAEP''"
      and wr: "wrapAesKeyWithRSA W (tape_after_salt t) (one_time_key t) rpkB = (Inr w, t')"
    from wrapAesKeyWithRSA_Inr [OF wr]
    have "rsa_oaep_encrypt W (material rpkB) (fst (getRandomValues 32 (tape_after_salt t)))
            (fresh_key t) = Some w"
      by (simp add: mat)
    with rsa have "rsa_oaep_decrypt W (material (privateKey rkpB)) w = Some (fresh_key t)"
      by (auto simp: rsa_pair_def)
    then have "unwrapAesKeyWithRSA W w (privateKey rkpB) = Inr ?unwrapped"
      by (intro unwrapAesKeyWithRSA_eq kB len)
    then show ?thesis
      using tag kB by (simp add: bind_e_def privateKey_of_def js_tags_differ)
  qed
  have fields:
    "iv_base64 env = b64_encode (fresh_iv t)"
    "salt_base64 env = b64_encode (fresh_salt t)"
    "ciphertext_base64 env = b64_encode (aes_gcm_encrypt W (fresh_key t) (fresh_iv t) P)"
    "wrapped_key_base64 env = b64_encode w"
    "wrap_alg env = tag"
    by (simp_all add: env)
  show ?thesis
    unfolding decryptMessage_text [OF stB(1,2,3)] fields
    by (simp only: base64ToArrayBuffer_encode bind_e_simps unwrap
        aesGcmDecrypt_unwrapped [OF aead])
qed

section \<open>The small platform keeps the laws\<close>

lemma toy_simps [simp]:
  "ecdh_p256 toy = (\<lambda>priv pub. Some (replicate 32 (toy_sum priv + toy_sum pub)))"
  "aes_gcm_encrypt toy = toy_encrypt"
  "aes_gcm_decrypt toy = toy_decrypt"
  "rsa_oaep_encrypt toy = toy_rsa_encrypt"
  "rsa_oaep_decrypt toy = toy_rsa_decrypt"
  "jwk_key_data toy = (\<lambda>k jwk. case jwk of JString s \<Rightarrow> Some (map ucast s) | _ \<Rightarrow> None)"
  "json_stringify toy = (\<lambda>v indent. toy_stringify v)"
  "json_parse toy = toy_parse"
  "sha256 toy = (\<lambda>data. [toy_sum data, of_nat (length data)])"
  by (simp_all add: toy_def)

lemma toy_aead: "aead_correct toy"
  by (simp add: aead_correct_def toy_encrypt_def toy_decrypt_def comp_def)

lemma toy_rsa_pair: "rsa_pair toy k k"
  by (auto simp: rsa_pair_def toy_rsa_encrypt_def toy_rsa_decrypt_def butlast_append comp_def)

lemma ucast_bytes_roundtrip:
  "map ((ucast :: code_unit \<Rightarrow> byte) \<circ> (ucast :: byte \<Rightarrow> code_unit)) bs = bs"
  by (simp add: comp_def ucast_byte_roundtrip)

lemma toy_import_ecdh_public:
  "importECDHPublicJwk toy (ecdh_public_key_jwk (toy_row e r)) = Inr (toy_key EcdhPublicKey [] e)"
  by (simp add: importECDHPublicJwk_def subtle_importKey_jwk_def jwk_usages_ok_def toy_row_def
      toy_key_def ucast_bytes_roundtrip)

lemma toy_import_rsa_public:
  "importRSAPublicJwk toy (rsa_public_key_jwk (toy_row e r)) = Inr (toy_key RsaOaepPublicKey [WrapKey] r)"
  by (simp add: importRSAPublicJwk_def subtle_importKey_jwk_def jwk_usages_ok_def toy_row_def
      toy_key_def ucast_bytes_roundtrip)

lemma alice_seal_ecdh:
  "sendMessage_seal toy tape0 alice_keys (js ''chat'') (js ''alice'') (js ''bob'')
     bob_ecdh_pub bob_rsa_pub P None None = (Inr (alice_to_bob P), tape_after_salt tape0)"
proof -
  have "wrapAesKeyWithECDH toy (one_time_key tape0)
          (toy_key EcdhPrivateKey [DeriveKey, DeriveBits] [1, 2, 3]) bob_ecdh_pub (fresh_salt tape0)
        = Inr (aes_gcm_encrypt toy (material (kek_of toy toy_secret (fresh_salt tape0)))
                (take 12 (fresh_salt tape0)) (material (one_time_key tape0)))"
    by (rule wrapAesKeyWithECDH_eq)
       (simp_all add: agreement_private_def agreement_public_def toy_key_def bob_ecdh_pub_def
         toy_secret_def one_time_key_def)
  then show ?thesis
    by (simp add: sendMessage_seal_eq sendMessage_wrapKey_def alice_keys_def toy_identity_def
        privateKey_of_def bind_e_simps alice_to_bob_def one_time_key_def)
qed

lemma alice_seal_rsa:
  "sendMessage_seal toy tape0 alice_no_ecdh (js ''chat'') (js ''alice'') (js ''bob'')
     bob_ecdh_pub bob_rsa_pub P None None
   = (Inr (alice_to_bob_rsa P), snd (getRandomValues 32 (tape_after_salt tape0)))"
  by (simp add: sendMessage_seal_eq sendMessage_wrapKey_def alice_no_ecdh_def
      privateKey_of_def bind_e_simps alice_to_bob_rsa_def one_time_key_def
      wrapAesKeyWithRSA_def subtle_wrapKey_raw_def export_raw_def encrypt_op_def
      bob_rsa_pub_def toy_key_def toy_rsa_encrypt_def split_beta)

section \<open>Alice seals, Bob opens\<close>

lemma decryptMessage_no_file:
  assumes "file_meta msg = None"
  shows "decryptMessage W st msg =
         bind_e (text_of (decryptMessage W st msg)) (\<lambda>t. Inr \<lparr>dec_text = t, dec_file = None\<rparr>)"
  using assms
  by (simp add: decryptMessage_def text_of_def bind_e_def Let_def
      split: sum.splits option.splits)

lemma text_of_Inr:
  "text_of r = Inr t \<Longrightarrow> \<exists>f. r = Inr \<lparr>dec_text = t, dec_file = f\<rparr>"
proof (cases r)
  case (Inr d)
  assume "text_of r = Inr t"
  with Inr have "d = \<lparr>dec_text = t, dec_file = dec_file d\<rparr>" by (simp add: text_of_def)
  with Inr show ?thesis by blast
qed (simp add: text_of_def)

lemma bob_opens:
  assumes "sendMessage_seal toy tape0 ks (js ''chat'') (js ''alice'') (js ''bob'')
             bob_ecdh_pub bob_rsa_pub P None None = (Inr env, t')"
    and "ks = alice_keys \<or> ks = alice_no_ecdh"
  shows "decryptMessage toy bob_state env = Inr \<lparr>dec_text = arrayBufferToString P, dec_file = None\<rparr>"
proof -
  have fm: "file_meta env = None"
    using assms(1)
    by (auto simp: sendMessage_seal_eq bind_e_def split: prod.splits sum.splits)
  have "text_of (decryptMessage toy bob_state env) = Inr (arrayBufferToString P)"
  proof (cases "ks = alice_keys")
    case True
    show ?thesis
    proof (rule seal_open_roundtrip [OF toy_aead _ _ _ _ _ _ _ _ _ _ _ _ _ _ assms(1)])
      show "ecdhKeyPair ks = Some \<lparr>publicKey = toy_key EcdhPublicKey [] [1, 2, 3],
              privateKey = toy_key EcdhPrivateKey [DeriveKey, DeriveBits] [1, 2, 3]\<rparr>"
        by (simp add: True alice_keys_def toy_identity_def)
      show "importECDHPublicJwk toy (ecdh_public_key_jwk bob_row) = Inr bob_ecdh_pub"
        by (simp add: bob_row_def bob_ecdh_pub_def toy_import_ecdh_public)
      show "importRSAPublicJwk toy (rsa_public_key_jwk bob_row) = Inr bob_rsa_pub"
        by (simp add: bob_row_def bob_rsa_pub_def toy_import_rsa_public)
      show "keys bob_state = Some bob_keys" "recipient bob_state = Some alice_row"
        "user bob_state = Some (js ''bob'')" "recipientId bob_state = js ''alice''"
        by (simp_all add: bob_state_def)
      show "ecdhKeyPair bob_keys = Some \<lparr>publicKey = toy_key EcdhPublicKey [] [6, 7, 8],
              privateKey = toy_key EcdhPrivateKey [DeriveKey, DeriveBits] [6, 7, 8]\<rparr>"
        "rsaKeyPair bob_keys = Some \<lparr>publicKey = toy_key RsaOaepPublicKey [WrapKey] [9, 10],
              privateKey = toy_key RsaOaepPrivateKey [UnwrapKey] [9, 10]\<rparr>"
        by (simp_all add: bob_keys_def toy_identity_def)
      show "importECDHPublicJwk toy (ecdh_public_key_jwk alice_row)
            = Inr (toy_key EcdhPublicKey [] [1, 2, 3])"
        by (simp add: alice_row_def toy_import_ecdh_public)
    qed (simp_all add: agreement_private_def encapsulation_private_def toy_key_def
         bob_ecdh_pub_def bob_rsa_pub_def toy_rsa_pair toy_sum_def)
  next
    case False
    with assms(2) have ks: "ks = alice_no_ecdh" by simp
    have env: "env = alice_to_bob_rsa P"
      using assms(1) unfolding ks alice_seal_rsa by simp
    have st: "keys bob_state = Some bob_keys" "recipient bob_state = Some alice_row"
        "user bob_state = Some (js ''bob'')"
      by (simp_all add: bob_state_def)
    have "unwrapAesKeyWithRSA toy
            (the (toy_rsa_encrypt [9, 10] (fst (getRandomValues 32 (tape_after_salt tape0)))
                    (fresh_key tape0)))
            (toy_key RsaOaepPrivateKey [UnwrapKey] [9, 10])
          = Inr \<lparr>kind = AesGcmKey, extractable = False, usages = [Decrypt],
                 material = fresh_key tape0\<rparr>"
      by (rule unwrapAesKeyWithRSA_eq)
         (simp_all add: encapsulation_private_def length_fresh_key toy_key_def
           toy_rsa_encrypt_def toy_rsa_decrypt_def butlast_append comp_def)
    then show ?thesis
      unfolding decryptMessage_text [OF st] env alice_to_bob_rsa_def
      by (simp add: base64ToArrayBuffer_encode bind_e_simps js_tags_differ bob_keys_def
          toy_identity_def privateKey_of_def aesGcmDecrypt_unwrapped [OF toy_aead, simplified])
  qed
  then show ?thesis
    by (subst decryptMessage_no_file [OF fm]) (simp add: bind_e_simps)
qed

section \<open>What opening depends on\<close>

lemma otherPartyEcdhPub_of_cong:
  "sender_id m' = sender_id m \<Longrightarrow>
   otherPartyEcdhPub_of W st rcp uid m' = otherPartyEcdhPub_of W st rcp uid m"
  by (simp add: otherPartyEcdhPub_of_def)

lemma decryptMessage_file_cong:
  assumes "sender_id m' = sender_id m" "file_url m' = file_url m"
    and "(wrap_alg m' = js ''ECDH'') = (wrap_alg m = js ''ECDH'')"
  shows "decryptMessage_file W st ks rcp uid m' fm = decryptMessage_file W st ks rcp uid m fm"
proof -
  have alg: "(or_else (fm_wrap_alg fm) (wrap_alg m') = js ''ECDH'')
             = (or_else (fm_wrap_alg fm) (wrap_alg m) = js ''ECDH'')"
    using assms(3) by (simp add: or_else_def split: option.splits)
  show ?thesis
    unfolding decryptMessage_file_def Let_def alg assms(2)
      otherPartyEcdhPub_of_cong [OF assms(1)] ..
qed

lemma decryptMessage_cong:
  assumes "sender_id m' = sender_id m" "file_url m' = file_url m"
    and "(wrap_alg m' = js ''ECDH'') = (wrap_alg m = js ''ECDH'')"
    and "iv_base64 m' = iv_base64 m" "salt_base64 m' = salt_base64 m"
    and "ciphertext_base64 m' = ciphertext_base64 m"
    and "wrapped_key_base64 m' = wrapped_key_base64 m"
    and "file_meta m' = file_meta m"
  shows "decryptMessage W st m' = decryptMessage W st m"
  unfolding decryptMessage_def Let_def assms(3-8)
    otherPartyEcdhPub_of_cong [OF assms(1)] decryptMessage_file_cong [OF assms(1-3)] ..

lemma decryptMessage_ignores_hash:
  "decryptMessage W st (msg\<lparr>hash_hex := h\<rparr>) = decryptMessage W st msg"
  by (rule decryptMessage_cong) simp_all


section \<open>Decoding the fields; the analysis of a message\<close>

lemma decode_ok:
  assumes "decodable msg"
  obtains iv salt ct wk where
      "base64ToArrayBuffer (iv_base64 msg) = Inr iv"
      "base64ToArrayBuffer (salt_base64 msg) = Inr salt"
      "base64ToArrayBuffer (ciphertext_base64 msg) = Inr ct"
      "base64ToArrayBuffer (wrapped_key_base64 msg) = Inr wk"
  using assms unfolding decodable_def
  by (cases "base64ToArrayBuffer (iv_base64 msg)"; cases "base64ToArrayBuffer (salt_base64 msg)";
      cases "base64ToArrayBuffer (ciphertext_base64 msg)";
      cases "base64ToArrayBuffer (wrapped_key_base64 msg)") simp_all

lemma decode_fail:
  assumes "\<not> decodable msg"
  shows "\<exists>e. \<forall>f.
       bind_e (base64ToArrayBuffer (iv_base64 msg)) (\<lambda>iv.
       bind_e (base64ToArrayBuffer (salt_base64 msg)) (\<lambda>salt.
       bind_e (base64ToArrayBuffer (ciphertext_base64 msg)) (\<lambda>ciphertext.
       bind_e (base64ToArrayBuffer (wrapped_key_base64 msg)) (\<lambda>wrappedKey.
         f iv salt ciphertext wrappedKey)))) = Inl e"
  using assms unfolding decodable_def
  by (cases "base64ToArrayBuffer (iv_base64 msg)"; cases "base64ToArrayBuffer (salt_base64 msg)";
      cases "base64ToArrayBuffer (ciphertext_base64 msg)";
      cases "base64ToArrayBuffer (wrapped_key_base64 msg)") (simp_all add: bind_e_simps)

lemma analyse_message_undecodable:
  assumes "\<not> decodable msg"
  shows "analyse_message W st ks uid msg =
           \<lparr>ma_wrap_alg = wrap_alg msg, ciphertext_size = length (ciphertext_base64 msg),
            decrypted_size = 0, hash_verified = False, decryption_success = False,
            is_file = (file_meta msg \<noteq> None)\<rparr>"
proof -
  from decode_fail [OF assms] obtain e where
    e: "\<And>f :: bytes \<Rightarrow> bytes \<Rightarrow> bytes \<Rightarrow> bytes \<Rightarrow> error + MessageAnalytics.
       bind_e (base64ToArrayBuffer (iv_base64 msg)) (\<lambda>iv.
       bind_e (base64ToArrayBuffer (salt_base64 msg)) (\<lambda>salt.
       bind_e (base64ToArrayBuffer (ciphertext_base64 msg)) (\<lambda>ciphertext.
       bind_e (base64ToArrayBuffer (wrapped_key_base64 msg)) (\<lambda>wrappedKey.
         f iv salt ciphertext wrappedKey)))) = Inl e"
    by blast
  show ?thesis unfolding analyse_message_def e by simp
qed

lemma analyse_hash_verified:
  "hash_verified (analyse_message W st ks uid msg)
   = (decodable msg \<and> sha256Hex W (StringData (ciphertext_base64 msg)) = hash_hex msg)"
proof (cases "decodable msg")
  case False
  then show ?thesis by (simp add: analyse_message_undecodable)
next
  case True
  from decode_ok [OF True] obtain iv salt ct wk where
      "base64ToArrayBuffer (iv_base64 msg) = Inr iv"
      "base64ToArrayBuffer (salt_base64 msg) = Inr salt"
      "base64ToArrayBuffer (ciphertext_base64 msg) = Inr ct"
      "base64ToArrayBuffer (wrapped_key_base64 msg) = Inr wk"
    by blast
  with True show ?thesis
    by (simp add: analyse_message_def bind_e_simps Let_def split: sum.split)
qed

lemma decodable_hash [simp]: "decodable (msg\<lparr>hash_hex := h\<rparr>) = decodable msg"
  by (simp add: decodable_def)

lemma analyse_success_ignores_hash:
  "decryption_success (analyse_message W st ks uid (msg\<lparr>hash_hex := h\<rparr>))
   = decryption_success (analyse_message W st ks uid msg)"
proof (cases "decodable msg")
  case False
  then show ?thesis by (simp add: analyse_message_undecodable)
next
  case True
  from decode_ok [OF True] obtain iv salt ct wk where
      "base64ToArrayBuffer (iv_base64 msg) = Inr iv"
      "base64ToArrayBuffer (salt_base64 msg) = Inr salt"
      "base64ToArrayBuffer (ciphertext_base64 msg) = Inr ct"
      "base64ToArrayBuffer (wrapped_key_base64 msg) = Inr wk"
    by blast
  moreover have "analyse_decrypt W ks (msg\<lparr>hash_hex := h\<rparr>) = analyse_decrypt W ks msg"
    by (rule ext)+ (simp add: analyse_decrypt_def)
  ultimately show ?thesis
    by (simp add: analyse_message_def bind_e_simps Let_def cong: option.case_cong
        split: sum.split)
qed


section \<open>The tag and the hash of a sealed message\<close>

lemma seal_result:
  assumes "sendMessage_seal W t ks chat uid rid pe pr P fu fm = (Inr env, t')"
  obtains w tag where
    "sendMessage_wrapKey W (tape_after_salt t) ks (one_time_key t) pe pr (fresh_salt t)
       = (Inr (w, tag), t')"
    "env = sealed_message W t chat uid rid P fu fm w tag"
  using assms
  by (auto simp: sendMessage_seal_eq bind_e_def split: prod.splits sum.splits)

lemma seal_hash:
  assumes "sendMessage_seal W t ks chat uid rid pe pr P fu fm = (Inr env, t')"
  shows "hash_hex env = sha256Hex W (StringData (ciphertext_base64 env))"
    and "base64ToArrayBuffer (ciphertext_base64 env)
         = Inr (aes_gcm_encrypt W (fresh_key t) (fresh_iv t) P)"
    and "decodable env"
proof -
  from assms obtain w tag where env: "env = sealed_message W t chat uid rid P fu fm w tag"
    by (rule seal_result)
  show "hash_hex env = sha256Hex W (StringData (ciphertext_base64 env))"
    and "base64ToArrayBuffer (ciphertext_base64 env)
         = Inr (aes_gcm_encrypt W (fresh_key t) (fresh_iv t) P)"
    and "decodable env"
    by (simp_all add: env base64ToArrayBuffer_encode decodable_def)
qed

lemma seal_returns:
  assumes "ecdhKeyPair ks = Some kp" "agreement_private (privateKey kp)" "agreement_public pe"
    and "ecdh_p256 W (material (privateKey kp)) (material pe) = Some s" "32 \<le> length s"
  shows "\<exists>env. sendMessage_seal W t ks chat uid rid pe pr P fu fm = (Inr env, tape_after_salt t)
               \<and> wrap_alg env = js ''ECDH''"
proof -
  have "wrapAesKeyWithECDH W (one_time_key t) (privateKey kp) pe (fresh_salt t)
        = Inr (aes_gcm_encrypt W (material (kek_of W s (fresh_salt t))) (take 12 (fresh_salt t))
                (material (one_time_key t)))"
    by (rule wrapAesKeyWithECDH_eq [OF assms(2-5)]) (simp_all add: one_time_key_def)
  then show ?thesis
    by (simp add: sendMessage_seal_eq sendMessage_wrapKey_def assms(1) privateKey_of_def
        bind_e_simps)
qed


lemma length_hex_byte: "length (padStart 2 c (toString16 n)) = 2"
  by (simp add: padStart_def toString16_def)

lemma length_sha256Hex_toy: "length (sha256Hex toy x) = 4"
  by (simp add: sha256Hex_def Let_def length_hex_byte)

lemma hi_bytes: "stringToArrayBuffer (js ''hi'') = [0x68, 0x69]"
  by (simp add: stringToArrayBuffer_def TextEncoder_encode_def utf8_bytes_def js_def)

lemma hi_text: "arrayBufferToString [0x68, 0x69] = js ''hi''"
  by (simp add: arrayBufferToString_def TextDecoder_decode_def strip_bom_def utf16_units_def js_def)

lemma bom_hi_bytes: "stringToArrayBuffer bom_hi = [0xEF, 0xBB, 0xBF, 0x68, 0x69]"
  by (simp add: stringToArrayBuffer_def TextEncoder_encode_def utf8_bytes_def bom_hi_def)

lemma bom_hi_text: "arrayBufferToString [0xEF, 0xBB, 0xBF, 0x68, 0x69] = js ''hi''"
  by (simp add: arrayBufferToString_def TextDecoder_decode_def strip_bom_def utf16_units_def js_def)

section \<open>The toy JSON text parses back\<close>

lemma toy_parse_str_append:
  "0x3B \<notin> set s \<Longrightarrow> toy_parse_str (s @ 0x3B # rest) = Some (s, rest)"
  by (induction s) auto

lemma toy_parse_str_toy_str:
  "0x3B \<notin> set s \<Longrightarrow> toy_parse_str (toy_str s @ rest) = Some (s, rest)"
  by (simp add: toy_str_def toy_parse_str_append)

lemma toy_parse_member:
  assumes "0x3B \<notin> set k" "k \<noteq> []" "hd k \<noteq> 0x2E" "0x3B \<notin> set s"
  shows "toy_parse_members (Suc (Suc n)) (toy_str k @ toy_stringify (JString s) @ rest)
         = (case toy_parse_members (Suc n) rest of
              None \<Rightarrow> None
            | Some (ms, rest') \<Rightarrow> Some ((k, JString s) # ms, rest'))"
proof -
  from assms(2) obtain c k' where k: "k = c # k'" by (cases k) auto
  from assms(3) have c: "c \<noteq> 0x2E" unfolding k by simp
  have str: "toy_parse_str (c # k' @ 0x3B # toy_stringify (JString s) @ rest)
        = Some (c # k', toy_stringify (JString s) @ rest)"
    using toy_parse_str_append [OF assms(1), of "toy_stringify (JString s) @ rest"]
    unfolding k by simp
  have val: "toy_parse_value (Suc n) (toy_stringify (JString s) @ rest) = Some (JString s, rest)"
    using toy_parse_str_toy_str [OF assms(4), of rest] by simp
  have "toy_parse_members (Suc (Suc n)) (c # k' @ 0x3B # toy_stringify (JString s) @ rest)
        = (case toy_parse_members (Suc n) rest of
              None \<Rightarrow> None
            | Some (ms, rest') \<Rightarrow> Some ((c # k', JString s) # ms, rest'))"
    unfolding toy_parse_members.simps str using c by (simp only: val if_False option.case prod.case)
  then show ?thesis unfolding k toy_str_def by simp
qed

lemma toy_parse_sealed_fuel:
  assumes "0x3B \<notin> set a" "0x3B \<notin> set b" "0x3B \<notin> set c"
  shows "toy_parse_value (Suc (Suc (Suc (Suc (Suc n))))) (toy_stringify (SealedBackup a b c))
         = Some (SealedBackup a b c, [])"
proof -
  have keys: "0x3B \<notin> set (js ''ciphertext'')" "js ''ciphertext'' \<noteq> []" "hd (js ''ciphertext'') \<noteq> 0x2E"
    "0x3B \<notin> set (js ''iv'')" "js ''iv'' \<noteq> []" "hd (js ''iv'') \<noteq> 0x2E"
    "0x3B \<notin> set (js ''salt'')" "js ''salt'' \<noteq> []" "hd (js ''salt'') \<noteq> 0x2E"
    by (simp_all add: js_def)
  have shape: "toy_stringify (SealedBackup a b c)
        = 0x6F # (toy_str (js ''ciphertext'') @ toy_stringify (JString a) @
                  toy_str (js ''iv'') @ toy_stringify (JString b) @
                  toy_str (js ''salt'') @ toy_stringify (JString c) @ [0x2E])"
    by (simp add: SealedBackup_def)
  have stop: "toy_parse_members (Suc n) [0x2E] = Some ([], [])" by simp
  have "toy_parse_members (Suc (Suc (Suc (Suc n))))
          (toy_str (js ''ciphertext'') @ toy_stringify (JString a) @
           toy_str (js ''iv'') @ toy_stringify (JString b) @
           toy_str (js ''salt'') @ toy_stringify (JString c) @ [0x2E])
        = Some ([(js ''ciphertext'', JString a), (js ''iv'', JString b), (js ''salt'', JString c)], [])"
    by (simp only: toy_parse_member [OF keys(1-3) assms(1)] toy_parse_member [OF keys(4-6) assms(2)]
        toy_parse_member [OF keys(7-9) assms(3)] stop option.case prod.case)
  then show ?thesis
    unfolding shape by (simp add: SealedBackup_def)
qed

lemma fuel5: "5 \<le> m \<Longrightarrow> \<exists>n. m = Suc (Suc (Suc (Suc (Suc n))))"
  by presburger

lemma toy_parse_sealed:
  assumes "0x3B \<notin> set a" "0x3B \<notin> set b" "0x3B \<notin> set c"
  shows "toy_parse (toy_stringify (SealedBackup a b c)) = Some (SealedBackup a b c)"
proof -
  have "5 \<le> Suc (length (toy_stringify (SealedBackup a b c)))"
    by (simp add: SealedBackup_def toy_str_def js_def)
  from fuel5 [OF this] obtain n where
    "Suc (length (toy_stringify (SealedBackup a b c))) = Suc (Suc (Suc (Suc (Suc n))))" ..
  then show ?thesis
    unfolding toy_parse_def by (simp only: toy_parse_sealed_fuel [OF assms] option.case prod.case list.case)
qed

section \<open>Text without a code unit above U+007F\<close>

lemma ascii_code_points:
  "\<forall>c \<in> set s. c < 0x80 \<Longrightarrow> utf16_code_points s = map unat s"
proof (induction s rule: utf16_code_points.induct)
  case (2 c)
  then have "unat c < 0x80" by (simp add: word_less_nat_alt)
  then show ?case by simp
next
  case (3 c d cs)
  then have "unat c < 0x80" by (simp add: word_less_nat_alt)
  with 3 show ?case by simp
qed simp

lemma ascii_utf8_bytes:
  "\<forall>c \<in> set s. c < 0x80 \<Longrightarrow> TextEncoder_encode s = map ucast s"
proof -
  assume a: "\<forall>c \<in> set s. c < 0x80"
  have "concat (map utf8_bytes (map unat s)) = map ucast s"
    using a
  proof (induction s)
    case (Cons c s)
    then have "unat c < 0x80" by (simp add: word_less_nat_alt)
    with Cons show ?case by (simp add: utf8_bytes_def)
  qed simp
  then show ?thesis by (simp add: TextEncoder_encode_def ascii_code_points [OF a])
qed

lemma ascii_utf8_decode:
  "\<forall>c \<in> set s. c < 0x80 \<Longrightarrow>
   utf8_decode 0 0 0 0x80 0xBF (map ucast (s :: jsstring)) = map unat s"
proof (induction s)
  case (Cons c s)
  then have c: "unat c < 0x80" by (simp add: word_less_nat_alt)
  then have "unat (ucast c :: byte) = unat c"
    by (simp add: unsigned_ucast_eq take_bit_nat_eq_self)
  with Cons c show ?case by simp
qed simp

lemma ascii_units:
  "\<forall>c \<in> set s. c < 0x80 \<Longrightarrow> concat (map utf16_units (map unat (s :: jsstring))) = s"
proof (induction s)
  case (Cons c s)
  have "unat c < 0x10000" using unsigned_less [of c, where 'a = nat] by simp
  with Cons show ?case by (simp add: utf16_units_def)
qed simp

lemma ascii_text_roundtrip:
  assumes "\<forall>c \<in> set s. c < 0x80"
  shows "arrayBufferToString (stringToArrayBuffer s) = s"
proof -
  have "strip_bom (map unat s) = map unat s"
  proof (cases s)
    case (Cons c s')
    with assms have "unat c < 0x80" by (simp add: word_less_nat_alt)
    with Cons show ?thesis by (simp add: strip_bom_def)
  qed (simp add: strip_bom_def)
  then show ?thesis
    unfolding arrayBufferToString_def stringToArrayBuffer_def TextDecoder_decode_def
      ascii_utf8_bytes [OF assms] ascii_utf8_decode [OF assms]
    by (simp only: ascii_units [OF assms])
qed

lemma b64_char_ascii: "i < 64 \<Longrightarrow> b64_char i < 0x80 \<and> b64_char i \<noteq> 0x3B"
  using b64_index_char [of i]
  by (auto simp: b64_index_def Let_def word_less_nat_alt split: if_splits)

lemma b64_encode_ascii: "c \<in> set (b64_encode bs) \<Longrightarrow> c < 0x80 \<and> c \<noteq> 0x3B"
  by (auto simp: b64_encode_def b64_char_ascii b64_sextets_bound)

section \<open>Sealing and unsealing a backup\<close>

lemma deriveKeyFromPassphrase_eq:
  "deriveKeyFromPassphrase W p salt = Inr (passphrase_key W p salt)"
  by (simp add: deriveKeyFromPassphrase_def import_raw_kdf_def bind_e_simps
      subtle_deriveKey_aes256_def new_aes_key_def passphrase_key_def)



lemma sealed_members:
  "get_member (SealedBackup c i s) (js ''salt'') = Inr (Some (JString s))"
  "get_member (SealedBackup c i s) (js ''iv'') = Inr (Some (JString i))"
  "get_member (SealedBackup c i s) (js ''ciphertext'') = Inr (Some (JString c))"
  by (simp_all add: get_member_def SealedBackup_def js_def)

lemma importKeysSealed_container:
  assumes "json_parse W (TextDecoder_decode blob) = Some (SealedBackup c i s)"
  shows "importKeysSealed W blob p =
     bind_e (base64ToArrayBuffer s) (\<lambda>salt.
     bind_e (base64ToArrayBuffer i) (\<lambda>iv.
     bind_e (base64ToArrayBuffer c) (\<lambda>ciphertext.
     catch_e
       (bind_e (aesGcmDecrypt W (passphrase_key W p salt) iv ciphertext) (\<lambda>plaintext.
        case json_parse W (arrayBufferToString plaintext) of
          None \<Rightarrow> Inl SyntaxError
        | Some backupData \<Rightarrow> Inr backupData))
       (\<lambda>error. Inl (Error (js ''Invalid passphrase or corrupted backup file''))))))"
  using assms
  by (simp add: importKeysSealed_def Let_def sealed_members bind_e_simps to_DOMString_def
      deriveKeyFromPassphrase_eq)


section \<open>Backups on the small platform\<close>

lemma b64_examples:
  "base64ToArrayBuffer (js ''!!!!'') = Inl InvalidCharacterError"
  "base64ToArrayBuffer (js ''AAAAAAAAAAAAAAAA'') = Inr [0, 0, 0, 0, 0, 0, 0, 0, 0, 0, 0, 0]"
  "base64ToArrayBuffer (js ''AAAAAAAAAAAAAAAAAAAAAA=='')
     = Inr [0, 0, 0, 0, 0, 0, 0, 0, 0, 0, 0, 0, 0, 0, 0, 0]"
  by (simp_all add: base64ToArrayBuffer_def atob_def js_def ascii_whitespace_def
      strip_padding_def b64_index_def bind_e_simps Let_def)






lemma broken_blob_parses: "json_parse toy (TextDecoder_decode broken_blob) = Some broken_backup"
proof -
  have ascii: "\<forall>c \<in> set (toy_stringify broken_backup). c < 0x80"
    by (simp add: broken_backup_def SealedBackup_def toy_str_def js_def)
  have semi: "0x3B \<notin> set (js ''!!!!'')" "0x3B \<notin> set (js ''AAAAAAAAAAAAAAAA'')"
    "0x3B \<notin> set (js ''AAAAAAAAAAAAAAAAAAAAAA=='')"
    by (simp_all add: js_def)
  from ascii_text_roundtrip [OF ascii] toy_parse_sealed [OF semi]
  show ?thesis
    by (simp add: broken_blob_def broken_backup_def arrayBufferToString_def stringToArrayBuffer_def)
qed
section \<open>The hex digest; the outcome of a seal\<close>

lemma hex_digits_map: "map hex_digit [0..<16] = hex_digits"
  by (simp add: upt_conv_Cons hex_digit_def hex_digits_def js_def)

lemma hex_digit_nth: "n < 16 \<Longrightarrow> hex_digit n = hex_digits ! n"
proof -
  assume "n < 16"
  then have "map hex_digit [0..<16] ! n = hex_digit n"
    by (simp only: nth_map length_upt nth_upt) simp
  then show ?thesis by (simp only: hex_digits_map)
qed

lemma hex_byte: "padStart 2 0x30 (toString16 (unat (b :: byte))) = hex_of_byte b"
proof -
  have b: "unat b < 256" by (rule unat_byte)
  then have d: "unat b div 16 < 16" by simp
  have m: "unat b mod 16 < 16" by simp
  have z: "hex_digits ! 0 = 0x30" by (simp add: hex_digits_def js_def)
  show ?thesis
  proof (cases "unat b < 16")
    case True
    then show ?thesis
      by (simp add: padStart_def toString16_def hex_of_byte_def hex_digit_nth z)
  next
    case False
    then show ?thesis
      by (simp add: padStart_def toString16_def hex_of_byte_def hex_digit_nth [OF d]
          hex_digit_nth [OF m])
  qed
qed

lemma sha256Hex_digest:
  "sha256Hex W (StringData s) = hex_digest (sha256 W (TextEncoder_encode s))"
  "sha256Hex W (BufferData b) = hex_digest (sha256 W b)"
  by (simp_all add: sha256Hex_def hex_digest_def hex_byte)













section \<open>What the analysis records of the decryption\<close>

lemma analysis_peer_tag:
  "analysis_peer W st uid msg = Some k \<Longrightarrow> wrap_alg msg = js ''ECDH''"
  by (simp add: analysis_peer_def split: if_splits)

lemma analyse_message_decoded:
  assumes "base64ToArrayBuffer (iv_base64 msg) = Inr iv"
      "base64ToArrayBuffer (salt_base64 msg) = Inr salt"
      "base64ToArrayBuffer (ciphertext_base64 msg) = Inr ct"
      "base64ToArrayBuffer (wrapped_key_base64 msg) = Inr wk"
  shows "decryption_success (analyse_message W st ks uid msg)
         = (\<exists>k p. analysis_unwrap W st ks uid msg salt wk = Inr k \<and> aesGcmDecrypt W k iv ct = Inr p)"
proof (cases "analysis_peer W st uid msg")
  case None
  then have "(case user_keys st (if sender_id msg = uid then recipient_id msg else sender_id msg) of
                 None \<Rightarrow> None
               | Some jwk \<Rightarrow>
                   if wrap_alg msg = js ''ECDH'' then
                     (case importECDHPublicJwk W jwk of Inl err \<Rightarrow> None | Inr k \<Rightarrow> Some k)
                   else None) = None"
    by (auto simp: analysis_peer_def split: option.splits if_splits)
  with None assms show ?thesis
    by (simp add: analyse_message_def bind_e_simps Let_def analyse_decrypt_def analysis_unwrap_def
        split: sum.split)
       (auto simp: bind_e_def split: sum.splits)
next
  case (Some pub)
  then have "(case user_keys st (if sender_id msg = uid then recipient_id msg else sender_id msg) of
                 None \<Rightarrow> None
               | Some jwk \<Rightarrow>
                   if wrap_alg msg = js ''ECDH'' then
                     (case importECDHPublicJwk W jwk of Inl err \<Rightarrow> None | Inr k \<Rightarrow> Some k)
                   else None) = Some pub"
    by (auto simp: analysis_peer_def split: option.splits if_splits)
  with Some assms analysis_peer_tag [OF Some] show ?thesis
    by (simp add: analyse_message_def bind_e_simps Let_def analyse_decrypt_def analysis_unwrap_def
        split: sum.split)
       (auto simp: bind_e_def split: sum.splits)
qed

lemma analyse_decryption_success:
  "decryption_success (analyse_message W st ks uid msg)
   = (\<exists>iv salt ct wk k p.
        base64ToArrayBuffer (iv_base64 msg) = Inr iv \<and>
        base64ToArrayBuffer (salt_base64 msg) = Inr salt \<and>
        base64ToArrayBuffer (ciphertext_base64 msg) = Inr ct \<and>
        base64ToArrayBuffer (wrapped_key_base64 msg) = Inr wk \<and>
        analysis_unwrap W st ks uid msg salt wk = Inr k \<and> aesGcmDecrypt W k iv ct = Inr p)"
proof (cases "decodable msg")
  case False
  then have "\<not> (\<exists>iv salt ct wk.
        base64ToArrayBuffer (iv_base64 msg) = Inr iv \<and>
        base64ToArrayBuffer (salt_base64 msg) = Inr salt \<and>
        base64ToArrayBuffer (ciphertext_base64 msg) = Inr ct \<and>
        base64ToArrayBuffer (wrapped_key_base64 msg) = Inr wk)"
    by (auto simp: decodable_def)
  with False show ?thesis
    by (auto simp: analyse_message_undecodable)
next
  case True
  from decode_ok [OF True] obtain iv salt ct wk where d:
      "base64ToArrayBuffer (iv_base64 msg) = Inr iv"
      "base64ToArrayBuffer (salt_base64 msg) = Inr salt"
      "base64ToArrayBuffer (ciphertext_base64 msg) = Inr ct"
      "base64ToArrayBuffer (wrapped_key_base64 msg) = Inr wk"
    by blast
  show ?thesis
    unfolding analyse_message_decoded [OF d] by (simp add: d)
qed

section \<open>Alice's message on Bob's Analytics page\<close>

lemma names_differ: "js ''alice'' \<noteq> js ''bob''"
  by (simp add: js_def)

lemma bob_analysis_peer:
  assumes "sender_id msg = js ''alice''" "wrap_alg msg = js ''ECDH''"
  shows "analysis_peer toy bob_analytics (js ''bob'') msg = Some (toy_key EcdhPublicKey [] [1, 2, 3])"
  using assms
  by (simp add: analysis_peer_def bob_analytics_def names_differ alice_row_def
      toy_import_ecdh_public)

lemma bob_unwraps:
  "unwrapAesKeyWithECDH toy
     (toy_encrypt (material (kek_of toy toy_secret (fresh_salt tape0)))
        (take 12 (fresh_salt tape0)) (fresh_key tape0))
     (toy_key EcdhPrivateKey [DeriveKey, DeriveBits] [6, 7, 8])
     (toy_key EcdhPublicKey [] [1, 2, 3]) (fresh_salt tape0)
   = Inr \<lparr>kind = AesGcmKey, extractable = False, usages = [Decrypt], material = fresh_key tape0\<rparr>"
proof -
  have "unwrapAesKeyWithECDH toy
     (aes_gcm_encrypt toy (material (kek_of toy toy_secret (fresh_salt tape0)))
        (take 12 (fresh_salt tape0)) (fresh_key tape0))
     (toy_key EcdhPrivateKey [DeriveKey, DeriveBits] [6, 7, 8])
     (toy_key EcdhPublicKey [] [1, 2, 3]) (fresh_salt tape0)
   = Inr \<lparr>kind = AesGcmKey, extractable = False, usages = [Decrypt], material = fresh_key tape0\<rparr>"
    by (rule unwrapAesKeyWithECDH_eq)
       (simp_all add: agreement_private_def agreement_public_def toy_key_def toy_secret_def
         toy_aead length_fresh_key add.commute)
  then show ?thesis by simp
qed

lemma bob_unwraps_nothing:
  "unwrapAesKeyWithECDH toy [] (toy_key EcdhPrivateKey [DeriveKey, DeriveBits] [6, 7, 8])
     (toy_key EcdhPublicKey [] [1, 2, 3]) salt = Inl OperationError"
proof -
  have "deriveKEK_ECDH toy (toy_key EcdhPrivateKey [DeriveKey, DeriveBits] [6, 7, 8])
          (toy_key EcdhPublicKey [] [1, 2, 3]) salt (js ''wrap'')
        = Inr (kek_of toy (replicate 32 (toy_sum [6, 7, 8] + toy_sum [1, 2, 3])) salt)"
    by (rule deriveKEK_ECDH_eq)
       (simp_all add: agreement_private_def agreement_public_def toy_key_def)
  then show ?thesis
    by (simp add: unwrapAesKeyWithECDH_def bind_e_simps subtle_unwrapKey_raw_aes_def
        decrypt_op_def kek_of_def toy_decrypt_def)
qed

lemma decode_nothing: "base64ToArrayBuffer [] = Inr []"
  using base64ToArrayBuffer_encode [of "[]"] by (simp add: b64_encode_def)

lemma wrong_hash_fields:
  "base64ToArrayBuffer (iv_base64 wrong_hash) = Inr (fresh_iv tape0)"
  "base64ToArrayBuffer (salt_base64 wrong_hash) = Inr (fresh_salt tape0)"
  "base64ToArrayBuffer (ciphertext_base64 wrong_hash)
     = Inr (toy_encrypt (fresh_key tape0) (fresh_iv tape0) [0x68, 0x69])"
  "base64ToArrayBuffer (wrapped_key_base64 wrong_hash)
     = Inr (toy_encrypt (material (kek_of toy toy_secret (fresh_salt tape0)))
              (take 12 (fresh_salt tape0)) (fresh_key tape0))"
  "sender_id wrong_hash = js ''alice''" "wrap_alg wrong_hash = js ''ECDH''"
  "hash_hex wrong_hash = js ''00''"
  by (simp_all add: wrong_hash_def alice_to_bob_def base64ToArrayBuffer_encode)

lemma wrong_key_fields:
  "base64ToArrayBuffer (iv_base64 wrong_key) = Inr (fresh_iv tape0)"
  "base64ToArrayBuffer (salt_base64 wrong_key) = Inr (fresh_salt tape0)"
  "base64ToArrayBuffer (ciphertext_base64 wrong_key)
     = Inr (toy_encrypt (fresh_key tape0) (fresh_iv tape0) [0x68, 0x69])"
  "base64ToArrayBuffer (wrapped_key_base64 wrong_key) = Inr []"
  "sender_id wrong_key = js ''alice''" "wrap_alg wrong_key = js ''ECDH''"
  "hash_hex wrong_key = sha256Hex toy (StringData (ciphertext_base64 wrong_key))"
  by (simp_all add: wrong_key_def alice_to_bob_def base64ToArrayBuffer_encode decode_nothing)

lemma wrong_hash_analysis:
  "hash_verified (analyse_message toy bob_analytics bob_keys (js ''bob'') wrong_hash) = False"
  "decryption_success (analyse_message toy bob_analytics bob_keys (js ''bob'') wrong_hash) = True"
proof -
  have "length (sha256Hex toy (StringData (ciphertext_base64 wrong_hash))) \<noteq> length (hash_hex wrong_hash)"
    by (simp add: length_sha256Hex_toy wrong_hash_fields js_def)
  then show "hash_verified (analyse_message toy bob_analytics bob_keys (js ''bob'') wrong_hash) = False"
    by (auto simp: analyse_hash_verified)
  have "analysis_unwrap toy bob_analytics bob_keys (js ''bob'') wrong_hash (fresh_salt tape0)
          (toy_encrypt (material (kek_of toy toy_secret (fresh_salt tape0)))
              (take 12 (fresh_salt tape0)) (fresh_key tape0))
        = Inr \<lparr>kind = AesGcmKey, extractable = False, usages = [Decrypt], material = fresh_key tape0\<rparr>"
    by (simp add: analysis_unwrap_def bob_analysis_peer wrong_hash_fields bob_keys_def
        toy_identity_def privateKey_of_def bind_e_simps bob_unwraps)
  moreover have "aesGcmDecrypt toy
          \<lparr>kind = AesGcmKey, extractable = False, usages = [Decrypt], material = fresh_key tape0\<rparr>
          (fresh_iv tape0) (toy_encrypt (fresh_key tape0) (fresh_iv tape0) [0x68, 0x69])
        = Inr [0x68, 0x69]"
    using aesGcmDecrypt_unwrapped [OF toy_aead, of "fresh_key tape0" "fresh_iv tape0" "[0x68, 0x69]"]
    by simp
  ultimately show "decryption_success (analyse_message toy bob_analytics bob_keys (js ''bob'') wrong_hash) = True"
    unfolding analyse_message_decoded [OF wrong_hash_fields(1-4)] by blast
qed

lemma wrong_key_analysis:
  "hash_verified (analyse_message toy bob_analytics bob_keys (js ''bob'') wrong_key) = True"
  "decryption_success (analyse_message toy bob_analytics bob_keys (js ''bob'') wrong_key) = False"
proof -
  show "hash_verified (analyse_message toy bob_analytics bob_keys (js ''bob'') wrong_key) = True"
    by (simp add: analyse_hash_verified decodable_def wrong_key_fields)
  have "analysis_unwrap toy bob_analytics bob_keys (js ''bob'') wrong_key (fresh_salt tape0) []
        = Inl OperationError"
    by (simp add: analysis_unwrap_def bob_analysis_peer wrong_key_fields bob_keys_def
        toy_identity_def privateKey_of_def bind_e_simps bob_unwraps_nothing)
  then show "decryption_success (analyse_message toy bob_analytics bob_keys (js ''bob'') wrong_key) = False"
    unfolding analyse_message_decoded [OF wrong_key_fields(1-4)] by simp
qed

lemma wrong_key_open: "decryptMessage toy bob_state wrong_key = Inl OperationError"
proof -
  have st: "keys bob_state = Some bob_keys" "recipient bob_state = Some alice_row"
      "user bob_state = Some (js ''bob'')"
    by (simp_all add: bob_state_def)
  have "otherPartyEcdhPub_of toy bob_state alice_row (js ''bob'') wrong_key
        = Inr (toy_key EcdhPublicKey [] [1, 2, 3])"
    by (simp add: otherPartyEcdhPub_of_def wrong_key_fields names_differ bob_state_def
        alice_row_def toy_import_ecdh_public)
  then have "text_of (decryptMessage toy bob_state wrong_key) = Inl OperationError"
    unfolding decryptMessage_text [OF st]
    by (simp add: wrong_key_fields bind_e_simps bob_keys_def toy_identity_def privateKey_of_def
        bob_unwraps_nothing)
  then show ?thesis
    by (cases "decryptMessage toy bob_state wrong_key") (simp_all add: text_of_def)
qed

lemma wrong_hash_open:
  "decryptMessage toy bob_state wrong_hash = Inr \<lparr>dec_text = js ''hi'', dec_file = None\<rparr>"
proof -
  have "decryptMessage toy bob_state (alice_to_bob [0x68, 0x69])
        = Inr \<lparr>dec_text = arrayBufferToString [0x68, 0x69], dec_file = None\<rparr>"
    by (rule bob_opens [OF alice_seal_ecdh]) simp
  then show ?thesis
    by (simp add: wrong_hash_def decryptMessage_ignores_hash hi_text)
qed

lemma hi_ciphertext: "toy_encrypt (fresh_key tape0) (fresh_iv tape0) [0x68, 0x69] = [0x58, 0x59, 0xB2]"
  by (simp add: toy_encrypt_def fresh_key_def fresh_iv_def getRandomValues_def tape0_def toy_sum_def
      upt_conv_Cons)

lemma hi_base64: "b64_encode [0x58, 0x59, 0xB2] = js ''WFmy''"
  by (simp add: b64_encode_def b64_char_def js_def)

lemma hi_digest:
  "hex_digest (sha256 toy (TextEncoder_encode (js ''WFmy''))) = js ''8304''"
  by (simp add: TextEncoder_encode_def utf8_bytes_def js_def hex_digest_def hex_of_byte_def
      hex_digits_def toy_sum_def)

lemma base64_text_bytes:
  "TextEncoder_encode (b64_encode bs) = map ucast (b64_encode bs)"
  by (rule ascii_utf8_bytes) (simp add: b64_encode_ascii)


text \<open>
  Claim C10. The primitive layer's binary/text codec is a round trip: for every byte
  buffer \<open>b\<close>, \<^verbatim>\<open>arrayBufferToBase64\<close> returns a string (it does not throw) and
  \<^verbatim>\<open>base64ToArrayBuffer\<close> applied to that string returns a buffer with exactly the
  bytes of \<open>b\<close>, hence also its length.
\<close>

theorem C10_base64_roundtrip:
  "bind_e (arrayBufferToBase64 b) base64ToArrayBuffer = Inr b"
  by (simp add: arrayBufferToBase64_def base64ToArrayBuffer_def bind_e_def btoa_binary
      atob_b64_encode ucast_byte_roundtrip comp_def)

section \<open>Claim C9: inline fallback of the file payload\<close>




section \<open>Claim C1: sealing and opening\<close>

text \<open>
  Claim C1, as amended. Let the sender hold an agreement key pair, let the recipient hold
  an agreement and an encapsulation key pair, let each side import the other's published
  keys, let ECDH agree on the two pairs and RSA-OAEP decryption invert encryption on the
  recipient's pair, and let AES-GCM decryption invert encryption. Then for every
  plaintext \<open>P\<close>, opening the message that \<^verbatim>\<open>sendMessage\<close> seals for \<open>P\<close> (fresh
  one-time key, 12-byte IV, 16-byte salt, key wrapped on either path) returns, on the
  recipient's page, the text that \<^verbatim>\<open>TextDecoder\<close> decodes from \<open>P\<close>: AES-GCM
  decryption gives back exactly \<open>P\<close>, and \<^verbatim>\<open>decryptMessage\<close> returns it as text.
  And when the sender's private agreement key is usable and ECDH yields a secret of 256
  bits, the seal does return a message, tagged \<open>ECDH\<close>.
\<close>

theorem C1_open_sealed:
  assumes "aead_correct W"
    and "ecdhKeyPair ksA = Some kpA"
    and "importECDHPublicJwk W (ecdh_public_key_jwk rowB) = Inr pkB"
    and "importRSAPublicJwk W (rsa_public_key_jwk rowB) = Inr rpkB"
    and "keys stB = Some ksB" "recipient stB = Some rowA" "user stB = Some B"
        "recipientId stB = A"
    and "ecdhKeyPair ksB = Some kpB" "agreement_private (privateKey kpB)"
        "rsaKeyPair ksB = Some rkpB" "encapsulation_private (privateKey rkpB)"
    and "importECDHPublicJwk W (ecdh_public_key_jwk rowA) = Inr pkA"
    and "ecdh_p256 W (material (privateKey kpA)) (material pkB)
           = ecdh_p256 W (material (privateKey kpB)) (material pkA)"
    and "rsa_pair W (material (privateKey rkpB)) (material rpkB)"
  shows "(\<forall>env t'. sendMessage_seal W t ksA chat A B pkB rpkB P fu fm = (Inr env, t') \<longrightarrow>
            (\<exists>f. decryptMessage W stB env
                   = Inr \<lparr>dec_text = arrayBufferToString P, dec_file = f\<rparr>))
       \<and> (agreement_private (privateKey kpA) \<and>
            (\<exists>s. ecdh_p256 W (material (privateKey kpA)) (material pkB) = Some s \<and> 32 \<le> length s)
            \<longrightarrow> (\<exists>env. sendMessage_seal W t ksA chat A B pkB rpkB P fu fm
                          = (Inr env, tape_after_salt t) \<and> wrap_alg env = js ''ECDH''))"
proof (intro conjI allI impI)
  fix env t'
  assume "sendMessage_seal W t ksA chat A B pkB rpkB P fu fm = (Inr env, t')"
  from text_of_Inr [OF seal_open_roundtrip [OF assms this]]
  show "\<exists>f. decryptMessage W stB env = Inr \<lparr>dec_text = arrayBufferToString P, dec_file = f\<rparr>" .
next
  assume "agreement_private (privateKey kpA) \<and>
          (\<exists>s. ecdh_p256 W (material (privateKey kpA)) (material pkB) = Some s \<and> 32 \<le> length s)"
  then obtain s where "agreement_private (privateKey kpA)"
    "ecdh_p256 W (material (privateKey kpA)) (material pkB) = Some s" "32 \<le> length s"
    by blast
  with assms(2) importECDHPublicJwk_kind [OF assms(3)]
  show "\<exists>env. sendMessage_seal W t ksA chat A B pkB rpkB P fu fm = (Inr env, tape_after_salt t)
             \<and> wrap_alg env = js ''ECDH''"
    by (intro seal_returns)
qed

text \<open>
  The theorem on the small platform: Alice seals the bytes of \<open>hi\<close> for Bob, and Bob's
  page opens the message.
\<close>

theorem C1_open_sealed_witness:
  "aead_correct toy
   \<and> sendMessage_seal toy tape0 alice_keys (js ''chat'') (js ''alice'') (js ''bob'')
        bob_ecdh_pub bob_rsa_pub [0x68, 0x69] None None
      = (Inr (alice_to_bob [0x68, 0x69]), tape_after_salt tape0)
   \<and> (\<exists>f. decryptMessage toy bob_state (alice_to_bob [0x68, 0x69])
            = Inr \<lparr>dec_text = js ''hi'', dec_file = f\<rparr>)"
proof -
  have "(\<forall>env t'. sendMessage_seal toy tape0 alice_keys (js ''chat'') (js ''alice'') (js ''bob'')
                    bob_ecdh_pub bob_rsa_pub [0x68, 0x69] None None = (Inr env, t') \<longrightarrow>
            (\<exists>f. decryptMessage toy bob_state env
                   = Inr \<lparr>dec_text = arrayBufferToString [0x68, 0x69], dec_file = f\<rparr>))"
  proof (rule conjunct1 [OF C1_open_sealed [OF toy_aead]])
    show "ecdhKeyPair alice_keys = Some \<lparr>publicKey = toy_key EcdhPublicKey [] [1, 2, 3],
            privateKey = toy_key EcdhPrivateKey [DeriveKey, DeriveBits] [1, 2, 3]\<rparr>"
      by (simp add: alice_keys_def toy_identity_def)
    show "importECDHPublicJwk toy (ecdh_public_key_jwk bob_row) = Inr bob_ecdh_pub"
      by (simp add: bob_row_def bob_ecdh_pub_def toy_import_ecdh_public)
    show "importRSAPublicJwk toy (rsa_public_key_jwk bob_row) = Inr bob_rsa_pub"
      by (simp add: bob_row_def bob_rsa_pub_def toy_import_rsa_public)
    show "keys bob_state = Some bob_keys" "recipient bob_state = Some alice_row"
      "user bob_state = Some (js ''bob'')" "recipientId bob_state = js ''alice''"
      by (simp_all add: bob_state_def)
    show "ecdhKeyPair bob_keys = Some \<lparr>publicKey = toy_key EcdhPublicKey [] [6, 7, 8],
            privateKey = toy_key EcdhPrivateKey [DeriveKey, DeriveBits] [6, 7, 8]\<rparr>"
      "rsaKeyPair bob_keys = Some \<lparr>publicKey = toy_key RsaOaepPublicKey [WrapKey] [9, 10],
            privateKey = toy_key RsaOaepPrivateKey [UnwrapKey] [9, 10]\<rparr>"
      by (simp_all add: bob_keys_def toy_identity_def)
    show "importECDHPublicJwk toy (ecdh_public_key_jwk alice_row)
          = Inr (toy_key EcdhPublicKey [] [1, 2, 3])"
      by (simp add: alice_row_def toy_import_ecdh_public)
  qed (simp_all add: agreement_private_def encapsulation_private_def toy_key_def
       bob_ecdh_pub_def bob_rsa_pub_def toy_rsa_pair toy_sum_def)
  then have "\<exists>f. decryptMessage toy bob_state (alice_to_bob [0x68, 0x69])
            = Inr \<lparr>dec_text = arrayBufferToString [0x68, 0x69], dec_file = f\<rparr>"
    using alice_seal_ecdh by blast
  then show ?thesis
    by (simp add: toy_aead alice_seal_ecdh hi_text)
qed

text \<open>
  Claim C1 as stated fails: the plaintext \<open>P\<close> of the text U+FEFF \<open>hi\<close> is sealed and
  opened, and what is returned is the text \<open>hi\<close>, whose bytes are not \<open>P\<close>, and which is
  not the text that was sent.
\<close>

theorem C1_counterexample:
  "sendMessage_seal toy tape0 alice_keys (js ''chat'') (js ''alice'') (js ''bob'')
     bob_ecdh_pub bob_rsa_pub (stringToArrayBuffer bom_hi) None None
   = (Inr (alice_to_bob (stringToArrayBuffer bom_hi)), tape_after_salt tape0)
   \<and> decryptMessage toy bob_state (alice_to_bob (stringToArrayBuffer bom_hi))
       = Inr \<lparr>dec_text = js ''hi'', dec_file = None\<rparr>
   \<and> stringToArrayBuffer (js ''hi'') \<noteq> stringToArrayBuffer bom_hi
   \<and> js ''hi'' \<noteq> bom_hi"
proof -
  have "decryptMessage toy bob_state (alice_to_bob (stringToArrayBuffer bom_hi))
        = Inr \<lparr>dec_text = arrayBufferToString (stringToArrayBuffer bom_hi), dec_file = None\<rparr>"
    by (rule bob_opens [OF alice_seal_ecdh]) simp
  moreover have "js ''hi'' \<noteq> bom_hi" by (simp add: js_def bom_hi_def)
  ultimately show ?thesis
    by (simp add: alice_seal_ecdh bom_hi_bytes bom_hi_text hi_bytes)
qed
section \<open>Claim C2: the integrity hash on opening\<close>

text \<open>
  Claim C2, as amended. \<^verbatim>\<open>decryptMessage\<close> does not recompute or compare the integrity
  hash: what it returns or throws is the same whatever hash is stored in the message.
  The hash is recomputed and compared by the analysis of a message in
  \<^verbatim>\<open>loadMessageAnalytics\<close>: \<^verbatim>\<open>hash_verified\<close> is true exactly when the four Base64
  fields decode and the SHA-256 hex digest of the UTF-8 bytes of the stored Base64
  ciphertext equals the stored hash. The same analysis attempts the decryption whatever
  the hash is, and records its outcome apart: \<^verbatim>\<open>decryption_success\<close> is true exactly
  when the four fields decode, the key unwraps on the path that the analysis takes, and
  AES-GCM decryption of the decoded ciphertext under that key and the decoded IV
  succeeds; it does not depend on the stored hash.
\<close>

theorem C2_hash_checked_by_analytics_only:
  "decryptMessage W st (msg\<lparr>hash_hex := h\<rparr>) = decryptMessage W st msg
   \<and> hash_verified (analyse_message W st' ks uid msg)
       = (decodable msg \<and>
          hex_digest (sha256 W (TextEncoder_encode (ciphertext_base64 msg))) = hash_hex msg)
   \<and> decryption_success (analyse_message W st' ks uid msg)
       = (\<exists>iv salt ct wk k p.
            base64ToArrayBuffer (iv_base64 msg) = Inr iv \<and>
            base64ToArrayBuffer (salt_base64 msg) = Inr salt \<and>
            base64ToArrayBuffer (ciphertext_base64 msg) = Inr ct \<and>
            base64ToArrayBuffer (wrapped_key_base64 msg) = Inr wk \<and>
            analysis_unwrap W st' ks uid msg salt wk = Inr k \<and>
            aesGcmDecrypt W k iv ct = Inr p)
   \<and> decryption_success (analyse_message W st' ks uid (msg\<lparr>hash_hex := h\<rparr>))
       = decryption_success (analyse_message W st' ks uid msg)"
proof (intro conjI)
  show "decryptMessage W st (msg\<lparr>hash_hex := h\<rparr>) = decryptMessage W st msg"
    by (rule decryptMessage_ignores_hash)
  show "hash_verified (analyse_message W st' ks uid msg)
       = (decodable msg \<and>
          hex_digest (sha256 W (TextEncoder_encode (ciphertext_base64 msg))) = hash_hex msg)"
    by (simp only: analyse_hash_verified sha256Hex_digest)
  show "decryption_success (analyse_message W st' ks uid msg)
       = (\<exists>iv salt ct wk k p.
            base64ToArrayBuffer (iv_base64 msg) = Inr iv \<and>
            base64ToArrayBuffer (salt_base64 msg) = Inr salt \<and>
            base64ToArrayBuffer (ciphertext_base64 msg) = Inr ct \<and>
            base64ToArrayBuffer (wrapped_key_base64 msg) = Inr wk \<and>
            analysis_unwrap W st' ks uid msg salt wk = Inr k \<and>
            aesGcmDecrypt W k iv ct = Inr p)"
    by (rule analyse_decryption_success)
  show "decryption_success (analyse_message W st' ks uid (msg\<lparr>hash_hex := h\<rparr>))
       = decryption_success (analyse_message W st' ks uid msg)"
    by (rule analyse_success_ignores_hash)
qed

text \<open>
  Claim C2 as stated fails. The message that Alice sealed for Bob, with the stored hash
  replaced by \<open>00\<close>, which is not the digest \<open>8304\<close> of its ciphertext, is opened by
  \<^verbatim>\<open>decryptMessage\<close> with no error; it is the analysis that records the hash as not
  verified and the decryption as a success. The same message with the wrapped key
  replaced instead makes \<^verbatim>\<open>decryptMessage\<close> throw the error of the decryption, and the
  analysis records the hash as verified and the decryption as failed.
\<close>

theorem C2_counterexample:
  "hex_digest (sha256 toy (TextEncoder_encode (ciphertext_base64 wrong_hash))) = js ''8304''
   \<and> hash_hex wrong_hash = js ''00''
   \<and> decryptMessage toy bob_state wrong_hash = Inr \<lparr>dec_text = js ''hi'', dec_file = None\<rparr>
   \<and> hash_verified (analyse_message toy bob_analytics bob_keys (js ''bob'') wrong_hash) = False
   \<and> decryption_success (analyse_message toy bob_analytics bob_keys (js ''bob'') wrong_hash) = True
   \<and> decryptMessage toy bob_state wrong_key = Inl OperationError
   \<and> hash_verified (analyse_message toy bob_analytics bob_keys (js ''bob'') wrong_key) = True
   \<and> decryption_success (analyse_message toy bob_analytics bob_keys (js ''bob'') wrong_key) = False"
proof -
  have "ciphertext_base64 wrong_hash = js ''WFmy''"
    by (simp add: wrong_hash_def alice_to_bob_def hi_ciphertext hi_base64)
  then have "hex_digest (sha256 toy (TextEncoder_encode (ciphertext_base64 wrong_hash))) = js ''8304''"
    by (simp only: hi_digest)
  then show ?thesis
    by (intro conjI wrong_hash_fields(7) wrong_hash_open wrong_hash_analysis wrong_key_open
        wrong_key_analysis)
qed

section \<open>Claim C3: which path wraps and which path unwraps\<close>




section \<open>Claim C5: what the integrity hash is computed over\<close>

text \<open>
  Claim C5. In every message that a seal returns, the stored hash is what \<^verbatim>\<open>sha256Hex\<close>
  gives for the stored Base64 text of the ciphertext, that is, the SHA-256 digest of the
  UTF-8 bytes of that text, which are its characters as bytes, written as two lowercase
  hexadecimal digits a byte. The text is the Base64 encoding of the AES-GCM ciphertext
  and decodes to it: the hash is over the encoded ciphertext, not over the plaintext. The
  check of the Analytics page, which needs the stored fields only, finds the hash
  verified on any page, whatever keys it holds; and with the stored hash replaced by
  another value it finds it verified exactly when that value is the hash that was stored.
\<close>

theorem C5_hash_of_encoded_ciphertext:
  assumes "sendMessage_seal W t ks chat uid rid pe pr P fu fm = (Inr env, t')"
  shows "hash_hex env = sha256Hex W (StringData (ciphertext_base64 env))
       \<and> hash_hex env = hex_digest (sha256 W (TextEncoder_encode (ciphertext_base64 env)))
       \<and> TextEncoder_encode (ciphertext_base64 env) = map ucast (ciphertext_base64 env)
       \<and> ciphertext_base64 env = b64_encode (aes_gcm_encrypt W (fresh_key t) (fresh_iv t) P)
       \<and> base64ToArrayBuffer (ciphertext_base64 env)
           = Inr (aes_gcm_encrypt W (fresh_key t) (fresh_iv t) P)
       \<and> hash_verified (analyse_message W st ks' uid' env)
       \<and> (\<forall>h. hash_verified (analyse_message W st ks' uid' (env\<lparr>hash_hex := h\<rparr>))
                = (h = hash_hex env))"
proof -
  from assms obtain w tag where env: "env = sealed_message W t chat uid rid P fu fm w tag"
    by (rule seal_result)
  have c: "ciphertext_base64 env = b64_encode (aes_gcm_encrypt W (fresh_key t) (fresh_iv t) P)"
    by (simp add: env)
  have h: "hash_hex env = sha256Hex W (StringData (ciphertext_base64 env))"
    by (rule seal_hash(1) [OF assms])
  have d: "decodable env" by (rule seal_hash(3) [OF assms])
  have v: "hash_verified (analyse_message W st ks' uid' (env\<lparr>hash_hex := h'\<rparr>))
             = (h' = hash_hex env)" for h'
    using d h by (auto simp: analyse_hash_verified)
  from v [of "hash_hex env"] have "hash_verified (analyse_message W st ks' uid' env)"
    by simp
  with h c v show ?thesis
    by (simp add: sha256Hex_digest base64_text_bytes base64ToArrayBuffer_encode)
qed

text \<open>
  The theorem on the small platform, for the message that Alice seals for Bob: the
  ciphertext is stored as \<open>WFmy\<close>, the stored hash is \<open>8304\<close>, the check finds it
  verified, and it finds the hash \<open>00\<close> not verified.
\<close>

theorem C5_hash_of_encoded_ciphertext_witness:
  "sendMessage_seal toy tape0 alice_keys (js ''chat'') (js ''alice'') (js ''bob'')
     bob_ecdh_pub bob_rsa_pub [0x68, 0x69] None None
   = (Inr (alice_to_bob [0x68, 0x69]), tape_after_salt tape0)
   \<and> ciphertext_base64 (alice_to_bob [0x68, 0x69]) = js ''WFmy''
   \<and> base64ToArrayBuffer (js ''WFmy'') = Inr [0x58, 0x59, 0xB2]
   \<and> hash_hex (alice_to_bob [0x68, 0x69]) = js ''8304''
   \<and> hash_verified (analyse_message toy bob_analytics bob_keys (js ''bob'') (alice_to_bob [0x68, 0x69]))
   \<and> hash_verified (analyse_message toy bob_analytics bob_keys (js ''bob'')
         ((alice_to_bob [0x68, 0x69])\<lparr>hash_hex := js ''00''\<rparr>)) = False"
proof -
  note inst = C5_hash_of_encoded_ciphertext [OF alice_seal_ecdh, of "[0x68, 0x69]" bob_analytics
      bob_keys "js ''bob''"]
  have c: "ciphertext_base64 (alice_to_bob [0x68, 0x69]) = js ''WFmy''"
    using inst by (simp add: hi_ciphertext hi_base64)
  have b: "base64ToArrayBuffer (js ''WFmy'') = Inr [0x58, 0x59, 0xB2]"
  proof -
    from inst have "base64ToArrayBuffer (ciphertext_base64 (alice_to_bob [0x68, 0x69]))
        = Inr (aes_gcm_encrypt toy (fresh_key tape0) (fresh_iv tape0) [0x68, 0x69])"
      by (elim conjE)
    then show ?thesis
      unfolding c by (simp add: hi_ciphertext)
  qed
  have h: "hash_hex (alice_to_bob [0x68, 0x69]) = js ''8304''"
  proof -
    from inst have "hash_hex (alice_to_bob [0x68, 0x69])
        = hex_digest (sha256 toy (TextEncoder_encode (ciphertext_base64 (alice_to_bob [0x68, 0x69]))))"
      by (elim conjE)
    then show ?thesis
      unfolding c by (simp only: hi_digest)
  qed
  have v: "hash_verified (analyse_message toy bob_analytics bob_keys (js ''bob'') (alice_to_bob [0x68, 0x69]))"
    using inst by (elim conjE)
  have "js ''00'' \<noteq> js ''8304''" by (simp add: js_def)
  moreover from inst have "hash_verified (analyse_message toy bob_analytics bob_keys (js ''bob'')
         ((alice_to_bob [0x68, 0x69])\<lparr>hash_hex := js ''00''\<rparr>))
       = (js ''00'' = hash_hex (alice_to_bob [0x68, 0x69]))"
    by (elim conjE) (erule allE)
  ultimately have n: "hash_verified (analyse_message toy bob_analytics bob_keys (js ''bob'')
         ((alice_to_bob [0x68, 0x69])\<lparr>hash_hex := js ''00''\<rparr>)) = False"
    by (simp only: h simp_thms)
  show ?thesis
    by (intro conjI alice_seal_ecdh c b h v n)
qed


section \<open>Claim C6: a third value of the tag\<close>




section \<open>Claim C4: the wrap of the agreement path\<close>

text \<open>
  Claim C4. Let \<open>s\<close> be the ECDH secret of the sender's private and the recipient's
  public agreement key, which is also that of the recipient's private and the sender's
  public key. For every extractable AES message key and every salt,
  \<^verbatim>\<open>wrapAesKeyWithECDH\<close> returns the AES-GCM encryption of the raw key bytes under the
  key that HKDF-SHA256 derives from the 256 bits of \<open>s\<close> with that salt and the context
  string \<open>wrap\<close>, the nonce being the first 12 bytes of the salt; and
  \<^verbatim>\<open>unwrapAesKeyWithECDH\<close> with the roles of the keys swapped and the same salt
  returns, from the wrapped bytes, a key with the same key bytes.
\<close>

theorem C4_agreement_wrap:
  assumes "aead_correct W" "aes_message_key aesKey"
    and "agreement_private skA" "agreement_public pkB"
    and "agreement_private skB" "agreement_public pkA"
    and "ecdh_p256 W (material skA) (material pkB) = Some s"
    and "ecdh_p256 W (material skB) (material pkA) = Some s"
    and "32 \<le> length s"
  shows "wrapAesKeyWithECDH W aesKey skA pkB salt
           = Inr (aes_gcm_encrypt W
                   (hkdf_sha256 W (take 32 s) salt (TextEncoder_encode (js ''wrap'')) 256)
                   (take 12 salt) (material aesKey))
       \<and> bind_e (wrapAesKeyWithECDH W aesKey skA pkB salt)
            (\<lambda>wrapped. unwrapAesKeyWithECDH W wrapped skB pkA salt)
           = Inr \<lparr>kind = AesGcmKey, extractable = False, usages = [Decrypt],
                  material = material aesKey\<rparr>"
proof -
  from assms(2) have k: "kind aesKey = AesGcmKey" "extractable aesKey"
    and len: "length (material aesKey) = 16 \<or> length (material aesKey) = 24
              \<or> length (material aesKey) = 32"
    by (simp_all add: aes_message_key_def)
  have w: "wrapAesKeyWithECDH W aesKey skA pkB salt
           = Inr (aes_gcm_encrypt W (material (kek_of W s salt)) (take 12 salt) (material aesKey))"
    by (rule wrapAesKeyWithECDH_eq [OF assms(3,4,7,9) k])
  have u: "unwrapAesKeyWithECDH W
             (aes_gcm_encrypt W (material (kek_of W s salt)) (take 12 salt) (material aesKey))
             skB pkA salt
           = Inr \<lparr>kind = AesGcmKey, extractable = False, usages = [Decrypt],
                  material = material aesKey\<rparr>"
    by (rule unwrapAesKeyWithECDH_eq [OF assms(5,6,8,9,1) len])
  show ?thesis
    unfolding w bind_e_simps u by (simp add: kek_of_def)
qed

text \<open>The theorem on the small platform, for Alice's one-time key wrapped for Bob.\<close>

theorem C4_agreement_wrap_witness:
  "aead_correct toy \<and> aes_message_key (one_time_key tape0)
   \<and> ecdh_p256 toy [1, 2, 3] [6, 7, 8] = Some toy_secret
   \<and> ecdh_p256 toy [6, 7, 8] [1, 2, 3] = Some toy_secret
   \<and> bind_e (wrapAesKeyWithECDH toy (one_time_key tape0)
              (toy_key EcdhPrivateKey [DeriveKey, DeriveBits] [1, 2, 3])
              (toy_key EcdhPublicKey [] [6, 7, 8]) (fresh_salt tape0))
        (\<lambda>wrapped. unwrapAesKeyWithECDH toy wrapped
              (toy_key EcdhPrivateKey [DeriveKey, DeriveBits] [6, 7, 8])
              (toy_key EcdhPublicKey [] [1, 2, 3]) (fresh_salt tape0))
       = Inr \<lparr>kind = AesGcmKey, extractable = False, usages = [Decrypt],
              material = fresh_key tape0\<rparr>"
proof -
  have key: "aes_message_key (one_time_key tape0)"
    by (simp add: aes_message_key_def one_time_key_def length_fresh_key)
  have s1: "ecdh_p256 toy (material (toy_key EcdhPrivateKey [DeriveKey, DeriveBits] [1, 2, 3]))
              (material (toy_key EcdhPublicKey [] [6, 7, 8])) = Some toy_secret"
    and s2: "ecdh_p256 toy (material (toy_key EcdhPrivateKey [DeriveKey, DeriveBits] [6, 7, 8]))
              (material (toy_key EcdhPublicKey [] [1, 2, 3])) = Some toy_secret"
    by (simp_all add: toy_key_def toy_secret_def toy_sum_def)
  have ks: "agreement_private (toy_key EcdhPrivateKey [DeriveKey, DeriveBits] [1, 2, 3])"
    "agreement_public (toy_key EcdhPublicKey [] [6, 7, 8])"
    "agreement_private (toy_key EcdhPrivateKey [DeriveKey, DeriveBits] [6, 7, 8])"
    "agreement_public (toy_key EcdhPublicKey [] [1, 2, 3])"
    by (simp_all add: agreement_private_def agreement_public_def toy_key_def)
  have len: "32 \<le> length toy_secret" by (simp add: toy_secret_def)
  have m: "material (one_time_key tape0) = fresh_key tape0" by (simp add: one_time_key_def)
  have e: "ecdh_p256 toy [1, 2, 3] [6, 7, 8] = Some toy_secret"
    "ecdh_p256 toy [6, 7, 8] [1, 2, 3] = Some toy_secret"
    using s1 s2 by (simp_all add: toy_key_def)
  have "bind_e (wrapAesKeyWithECDH toy (one_time_key tape0)
              (toy_key EcdhPrivateKey [DeriveKey, DeriveBits] [1, 2, 3])
              (toy_key EcdhPublicKey [] [6, 7, 8]) (fresh_salt tape0))
        (\<lambda>wrapped. unwrapAesKeyWithECDH toy wrapped
              (toy_key EcdhPrivateKey [DeriveKey, DeriveBits] [6, 7, 8])
              (toy_key EcdhPublicKey [] [1, 2, 3]) (fresh_salt tape0))
       = Inr \<lparr>kind = AesGcmKey, extractable = False, usages = [Decrypt],
              material = material (one_time_key tape0)\<rparr>"
    by (rule conjunct2 [OF C4_agreement_wrap [OF toy_aead key ks s1 s2 len]])
  then show ?thesis
    unfolding m using toy_aead key e by (intro conjI)
qed

section \<open>Claim C7: sealing a backup and unsealing it\<close>



section \<open>Claim C8: what a failed unseal throws\<close>

text \<open>
  Claim C8, on the code. When the container parses, its three fields decode and AES-GCM
  decryption fails, as it does for a wrong passphrase or altered bytes,
  \<^verbatim>\<open>importKeysSealed\<close> throws the one error \<open>Invalid passphrase or corrupted backup
  file\<close>. But the file is parsed and the fields are decoded before the \<^verbatim>\<open>try\<close> block:
  a backup file that is no JSON text throws a \<^verbatim>\<open>SyntaxError\<close>, and one whose
  ciphertext member is no Base64 text throws an \<^verbatim>\<open>InvalidCharacterError\<close>, so a
  corrupted backup is told apart from a wrong passphrase.
\<close>

theorem C8_unseal_errors:
  "(json_parse W (TextDecoder_decode blob) = Some (SealedBackup c i s) \<and>
    base64ToArrayBuffer s = Inr salt \<and> base64ToArrayBuffer i = Inr iv \<and>
    base64ToArrayBuffer c = Inr ciphertext \<and>
    aes_gcm_decrypt W (pbkdf2_sha256 W (TextEncoder_encode p) salt 200000 256) iv ciphertext = None
    \<longrightarrow> importKeysSealed W blob p
          = Inl (Error (js ''Invalid passphrase or corrupted backup file'')))
   \<and> (json_parse W (TextDecoder_decode blob) = None
        \<longrightarrow> importKeysSealed W blob p = Inl SyntaxError)
   \<and> (json_parse W (TextDecoder_decode blob)
          = Some (SealedBackup (js ''!!!!'') (js ''AAAAAAAAAAAAAAAA'') (js ''AAAAAAAAAAAAAAAAAAAAAA==''))
        \<longrightarrow> importKeysSealed W blob p = Inl InvalidCharacterError)"
proof (intro conjI impI)
  assume "json_parse W (TextDecoder_decode blob) = Some (SealedBackup c i s) \<and>
    base64ToArrayBuffer s = Inr salt \<and> base64ToArrayBuffer i = Inr iv \<and>
    base64ToArrayBuffer c = Inr ciphertext \<and>
    aes_gcm_decrypt W (pbkdf2_sha256 W (TextEncoder_encode p) salt 200000 256) iv ciphertext = None"
  then show "importKeysSealed W blob p
             = Inl (Error (js ''Invalid passphrase or corrupted backup file''))"
    by (simp add: importKeysSealed_container bind_e_simps catch_e_def aesGcmDecrypt_def
        subtle_decrypt_def decrypt_op_def passphrase_key_def)
next
  assume "json_parse W (TextDecoder_decode blob) = None"
  then show "importKeysSealed W blob p = Inl SyntaxError"
    by (simp add: importKeysSealed_def)
next
  assume "json_parse W (TextDecoder_decode blob)
          = Some (SealedBackup (js ''!!!!'') (js ''AAAAAAAAAAAAAAAA'') (js ''AAAAAAAAAAAAAAAAAAAAAA==''))"
  then show "importKeysSealed W blob p = Inl InvalidCharacterError"
    by (simp add: importKeysSealed_container b64_examples bind_e_simps)
qed

text \<open>
  The theorem on the small platform, at a backup whose ciphertext member is \<open>!!!!\<close>.
\<close>

theorem C8_unseal_errors_witness:
  "json_parse toy (TextDecoder_decode broken_blob)
     = Some (SealedBackup (js ''!!!!'') (js ''AAAAAAAAAAAAAAAA'') (js ''AAAAAAAAAAAAAAAAAAAAAA==''))
   \<and> importKeysSealed toy broken_blob (js ''pw'') = Inl InvalidCharacterError"
  using C8_unseal_errors [of toy broken_blob _ _ _ _ _ _ "js ''pw''"] broken_blob_parses
  by (simp add: broken_backup_def)

end
